theory Spec2Isabelle
  imports Main "HOL-Library.AList" "HOL-Library.Char_ord" "HOL-Library.List_Lexorder"
begin

section \<open>Python values\<close>

text \<open>
  A dictionary key that may be absent is an \<open>option\<close> field: \<open>d.get('K')\<close> is the
  field, \<open>'K' in d\<close> is \<open>field \<noteq> None\<close>.  Python strings are compared by code point,
  which is the order of \<open>HOL-Library.Char_ord\<close> lifted to lists by
  \<open>HOL-Library.List_Lexorder\<close>.
\<close>

text \<open>Truthiness of an optional string: \<open>None\<close> and the empty string are false.\<close>

definition truthy :: "string option \<Rightarrow> bool" where
  "truthy x = (case x of None \<Rightarrow> False | Some s \<Rightarrow> s \<noteq> [])"

text \<open>\<open>s.startswith(p)\<close>\<close>

definition startswith :: "string \<Rightarrow> string \<Rightarrow> bool" where
  "startswith s p = (take (length p) s = p)"

text \<open>\<open>p in s\<close> for strings: \<open>p\<close> occurs in \<open>s\<close> as a contiguous substring.\<close>

fun contains :: "string \<Rightarrow> string \<Rightarrow> bool" where
  "contains [] p = (p = [])"
| "contains (c # s) p = (startswith (c # s) p \<or> contains s p)"

text \<open>\<open>s.split(c)\<close> with a one-character separator.\<close>

fun split :: "char \<Rightarrow> string \<Rightarrow> string list" where
  "split c [] = [[]]"
| "split c (x # s) =
     (if x = c then [] # split c s
      else (case split c s of [] \<Rightarrow> [[x]] | w # ws \<Rightarrow> (x # w) # ws))"

text \<open>\<open>str(x)\<close> of an optional string inside an f-string.\<close>

definition py_str :: "string option \<Rightarrow> string" where
  "py_str x = (case x of None \<Rightarrow> ''None'' | Some s \<Rightarrow> s)"

text \<open>\<open>a or b\<close> on optional strings.\<close>

definition py_or :: "string option \<Rightarrow> string option \<Rightarrow> string option" where
  "py_or a b = (if truthy a then a else b)"

section \<open>The captured configuration (the backup document)\<close>

record tag =
  Key :: string
  Value :: string

record igw_data =
  igw_InternetGatewayId :: string
  igw_Tags :: "tag list option"

record subnet_data =
  sn_SubnetId :: "string option"
  sn_CidrBlock :: "string option"
  sn_AvailabilityZone :: "string option"
  sn_Tags :: "tag list option"
  sn_MapPublicIpOnLaunch :: "bool option"

text \<open>
  A captured route.  The restore reads \<open>GatewayId\<close> and \<open>DestinationCidrBlock\<close>
  only; a route to a NAT gateway, an instance or a peering connection names its target
  under another key and has no \<open>GatewayId\<close>.
\<close>

record route =
  DestinationCidrBlock :: "string option"
  GatewayId :: "string option"
  NatGatewayId :: "string option"
  InstanceId :: "string option"
  VpcPeeringConnectionId :: "string option"

record association =
  as_Main :: "bool option"
  as_SubnetId :: "string option"

record rt_data =
  rt_RouteTableId :: "string option"
  rt_Tags :: "tag list option"
  rt_Routes :: "route list option"
  rt_Associations :: "association list option"

record ip_range =
  CidrIp :: "string option"
  ip_Description :: "string option"

record ipv6_range =
  CidrIpv6 :: "string option"
  ip6_Description :: "string option"

text \<open>
  A security-group rule, as captured and as cleaned: both are dictionaries over the same
  keys (the cleaned one never has the other keys of the captured one).
\<close>

record rule =
  IpProtocol :: "string option"
  FromPort :: "int option"
  ToPort :: "int option"
  IpRanges :: "ip_range list option"
  Ipv6Ranges :: "ipv6_range list option"

record sg_data =
  sg_GroupId :: "string option"
  sg_GroupName :: "string option"
  sg_Description :: "string option"
  sg_Tags :: "tag list option"
  sg_IpPermissions :: "rule list option"
  sg_IpPermissionsEgress :: "rule list option"

record vpc_data =
  vpc_id :: string
  vpc_CidrBlock :: "string option"
  vpc_Tags :: "tag list option"
  EnableDnsSupport :: "bool option"
  EnableDnsHostnames :: "bool option"
  internet_gateways :: "igw_data list option"
  subnets :: "subnet_data list option"
  route_tables :: "rt_data list option"
  security_groups :: "sg_data list option"

text \<open>
  The backup document: \<open>vpcs\<close> is a dictionary from the original network identifier to
  its details, in insertion order.
\<close>

record backup_data =
  metadata :: "(string \<times> string) list option"
  vpcs :: "(string \<times> vpc_data) list option"

section \<open>The provisioning API and the blob store\<close>

datatype vpc_attribute = AttrEnableDnsSupport bool | AttrEnableDnsHostnames bool

datatype api_call =
    CreateVpc string
  | WaitVpcAvailable string
  | CreateTags string "tag list"
  | ModifyVpcAttribute string vpc_attribute
  | CreateInternetGateway
  | AttachInternetGateway string string
  | CreateSubnet string string "string option"
  | ModifySubnetAttributeMapPublicIp string bool
  | CreateRouteTable string
  | CreateRoute string string string
  | AssociateRouteTable string string
  | CreateSecurityGroup "string option" string string
  | AuthorizeSecurityGroupIngress string rule
  | RevokeSecurityGroupEgress string rule
  | AuthorizeSecurityGroupEgress string rule

text \<open>
  An exception is either botocore's \<open>ClientError\<close> (with its text), which the restore
  code catches, or any other exception (a waiter time-out, a connection error, an
  \<open>IndexError\<close>), which nothing in the restore catches.
\<close>

datatype exc = ClientError string | OtherException

datatype response = Ok string | Raises exc

text \<open>
  The EC2 client: the answer to a call may depend on every call made before it.  A
  successful answer carries the identifier the code reads from it.
\<close>

type_synonym ec2 = "api_call list \<Rightarrow> api_call \<Rightarrow> response"

datatype list_response = CommonPrefixes "string list option" | ListRaises exc

datatype get_response = Body backup_data | GetRaises exc

text \<open>The S3 client, read-only during a restore: \<open>list_objects_v2\<close> (bucket, prefix,
  delimiter \<open>/\<close>) and \<open>get_object\<close> followed by the parser of the format.\<close>

record s3 =
  list_objects_v2 :: "string \<Rightarrow> string \<Rightarrow> list_response"
  get_object :: "string \<Rightarrow> string \<Rightarrow> get_response"

section \<open>The state of a restore run\<close>

datatype level = INFO | ERROR

text \<open>A log record: level, message template, the values formatted into it.\<close>

datatype log_record = Log level string "string list"

text \<open>
  The fields of a \<open>VpcRestore\<close> object.  The six \<open>cr_\<close> fields are the dictionary
  \<open>created_resources\<close> (nothing writes \<open>nat_gateways\<close>); \<open>trace\<close> (the EC2 calls issued so far, oldest first) and
  \<open>logs\<close> are what the run does to the outside.
\<close>

record VpcRestore =
  bucket :: string
  timestamp :: "string option"
  target_vpc_id :: "string option"
  region :: "string option"
  account_id :: string
  current_region :: "string option"
  cr_vpc :: "string option"
  cr_subnets :: "(string option \<times> string) list"
  cr_route_tables :: "(string option \<times> string) list"
  cr_security_groups :: "(string option \<times> string) list"
  cr_internet_gateways :: "(string \<times> igw_data) list"
  cr_nat_gateways :: "(string \<times> string) list"
  trace :: "api_call list"
  logs :: "log_record list"

text \<open>\<open>VpcRestore.__init__\<close>, after the session and the account have been resolved.\<close>

definition init :: "string \<Rightarrow> string option \<Rightarrow> string option \<Rightarrow> string option \<Rightarrow>
    string \<Rightarrow> string option \<Rightarrow> VpcRestore" where
  "init b ts vid r acct cur =
     \<lparr> bucket = b, timestamp = ts, target_vpc_id = vid, region = r,
       account_id = acct, current_region = cur,
       cr_vpc = None, cr_subnets = [], cr_route_tables = [], cr_security_groups = [],
       cr_internet_gateways = [], cr_nat_gateways = [], trace = [],
       logs = [Log INFO ''Initialized VPC restore for account {} in region {}''
                 [acct, py_str cur]] \<rparr>"

text \<open>A step of a method: it reads and updates the object, and returns or raises.\<close>

type_synonym 'a step = "VpcRestore \<Rightarrow> (exc + 'a) \<times> VpcRestore"

definition ret :: "'a \<Rightarrow> 'a step" where
  "ret x st = (Inr x, st)"

definition bind :: "'a step \<Rightarrow> ('a \<Rightarrow> 'b step) \<Rightarrow> 'b step" where
  "bind m f st = (case m st of (Inl e, st') \<Rightarrow> (Inl e, st') | (Inr x, st') \<Rightarrow> f x st')"

text \<open>\<open>try: body except ClientError as e: handler\<close>\<close>

definition try_except_ClientError :: "'a step \<Rightarrow> (string \<Rightarrow> 'a step) \<Rightarrow> 'a step" where
  "try_except_ClientError body handler st =
     (case body st of
        (Inl (ClientError e), st') \<Rightarrow> handler e st'
      | (Inl OtherException, st') \<Rightarrow> (Inl OtherException, st')
      | (Inr x, st') \<Rightarrow> (Inr x, st'))"

definition if_then :: "bool \<Rightarrow> unit step \<Rightarrow> unit step" where
  "if_then b m = (if b then m else ret ())"

definition logger :: "level \<Rightarrow> string \<Rightarrow> string list \<Rightarrow> unit step" where
  "logger l msg args st = (Inr (), st\<lparr>logs := logs st @ [Log l msg args]\<rparr>)"

text \<open>One EC2 call: it is issued (and so enters the trace) whatever the answer is.\<close>

definition call :: "ec2 \<Rightarrow> api_call \<Rightarrow> string step" where
  "call ec2 c st =
     (case ec2 (trace st) c of Ok r \<Rightarrow> Inr r | Raises e \<Rightarrow> Inl e,
      st\<lparr>trace := trace st @ [c]\<rparr>)"

section \<open>Network creation\<close>

text \<open>
  The tag filter of \<open>restore_vpc\<close>: only the key \<open>aws:cloudformation:stack-name\<close> is
  skipped.
\<close>

definition vpc_tag_specs :: "tag list \<Rightarrow> tag list" where
  "vpc_tag_specs tags = filter (\<lambda>t. Key t \<noteq> ''aws:cloudformation:stack-name'') tags"

text \<open>The tag filter of every other kind: keys starting with \<open>aws:\<close> are skipped.\<close>

definition tag_specs :: "tag list \<Rightarrow> tag list" where
  "tag_specs tags = filter (\<lambda>t. \<not> startswith (Key t) ''aws:'') tags"

definition missing_vpc_cidr :: "vpc_data \<Rightarrow> string option step" where
  "missing_vpc_cidr vd =
     bind (logger ERROR ''Missing CIDR block for VPC {}'' [vpc_id vd]) (\<lambda>_. ret None)"

definition create_vpc :: "ec2 \<Rightarrow> vpc_data \<Rightarrow> string \<Rightarrow> string option step" where
  "create_vpc ec2 vd cidr_block =
     try_except_ClientError
       (bind (logger INFO ''Creating new VPC with CIDR {}'' [cidr_block]) (\<lambda>_.
        bind (call ec2 (CreateVpc cidr_block)) (\<lambda>new_vpc_id.
        bind (call ec2 (WaitVpcAvailable new_vpc_id)) (\<lambda>_.
        bind (let tags = (case vpc_Tags vd of None \<Rightarrow> [] | Some ts \<Rightarrow> ts) in
              if_then (tags \<noteq> [] \<and> vpc_tag_specs tags \<noteq> [])
                (bind (call ec2 (CreateTags new_vpc_id (vpc_tag_specs tags))) (\<lambda>_. ret ())))
          (\<lambda>_.
        bind (if_then (EnableDnsSupport vd \<noteq> Some False)
                (bind (call ec2 (ModifyVpcAttribute new_vpc_id (AttrEnableDnsSupport True)))
                   (\<lambda>_. ret ()))) (\<lambda>_.
        bind (if_then (EnableDnsHostnames vd = Some True)
                (bind (call ec2 (ModifyVpcAttribute new_vpc_id (AttrEnableDnsHostnames True)))
                   (\<lambda>_. ret ()))) (\<lambda>_.
        bind (logger INFO ''Successfully created new VPC: {}'' [new_vpc_id]) (\<lambda>_.
        bind (\<lambda>st. (Inr (), st\<lparr>cr_vpc := Some new_vpc_id\<rparr>)) (\<lambda>_.
        ret (Some new_vpc_id))))))))))
       (\<lambda>e. bind (logger ERROR ''Error creating VPC: {}'' [e]) (\<lambda>_. ret None))"

text \<open>\<open>restore_vpc\<close>: a missing or empty CIDR block returns \<open>None\<close> before any call.\<close>

definition restore_vpc :: "ec2 \<Rightarrow> vpc_data \<Rightarrow> string option step" where
  "restore_vpc ec2 vd =
     (case vpc_CidrBlock vd of
        None \<Rightarrow> missing_vpc_cidr vd
      | Some cidr_block \<Rightarrow>
          if cidr_block = [] then missing_vpc_cidr vd else create_vpc ec2 vd cidr_block)"

section \<open>Gateway and subnets\<close>

text \<open>
  The tagging step shared by gateways, subnets, route tables and security groups:
  \<open>if 'Tags' in d: tag_specs = [...]; if tag_specs: create_tags(...)\<close>.
\<close>

definition apply_tags :: "ec2 \<Rightarrow> tag list option \<Rightarrow> string \<Rightarrow> unit step" where
  "apply_tags ec2 tags new_id =
     (case tags of
        None \<Rightarrow> ret ()
      | Some ts \<Rightarrow>
          if_then (tag_specs ts \<noteq> [])
            (bind (call ec2 (CreateTags new_id (tag_specs ts))) (\<lambda>_. ret ())))"

text \<open>
  \<open>restore_internet_gateway\<close>.  The argument is \<open>None\<close> for a false \<open>igw_data\<close>.
  The entry it records has the new identifier as key and the captured gateway as value.
\<close>

definition restore_internet_gateway ::
    "ec2 \<Rightarrow> igw_data option \<Rightarrow> string \<Rightarrow> string option step" where
  "restore_internet_gateway ec2 igw new_vpc_id =
     (case igw of
        None \<Rightarrow> ret None
      | Some igw_data \<Rightarrow>
          try_except_ClientError
            (bind (logger INFO ''Creating new Internet Gateway'' []) (\<lambda>_.
             bind (call ec2 CreateInternetGateway) (\<lambda>new_igw_id.
             bind (apply_tags ec2 (igw_Tags igw_data) new_igw_id) (\<lambda>_.
             bind (logger INFO ''Attaching Internet Gateway {} to VPC {}''
                     [new_igw_id, new_vpc_id]) (\<lambda>_.
             bind (call ec2 (AttachInternetGateway new_igw_id new_vpc_id)) (\<lambda>_.
             bind (\<lambda>st. (Inr (), st\<lparr>cr_internet_gateways :=
                     AList.update new_igw_id igw_data (cr_internet_gateways st)\<rparr>)) (\<lambda>_.
             ret (Some new_igw_id))))))))
            (\<lambda>e. bind (logger ERROR ''Error restoring Internet Gateway: {}'' [e])
                   (\<lambda>_. ret None)))"

text \<open>The body of the loop of \<open>restore_subnets\<close>.\<close>

definition restore_subnet :: "ec2 \<Rightarrow> string \<Rightarrow> subnet_data \<Rightarrow> unit step" where
  "restore_subnet ec2 new_vpc_id sd =
     (case sn_CidrBlock sd of
        None \<Rightarrow> logger ERROR ''Missing CIDR block for subnet {}'' [py_str (sn_SubnetId sd)]
      | Some cidr_block \<Rightarrow>
          if cidr_block = [] then
            logger ERROR ''Missing CIDR block for subnet {}'' [py_str (sn_SubnetId sd)]
          else
            try_except_ClientError
              (bind (logger INFO ''Creating new subnet with CIDR {} in AZ {}''
                      [cidr_block, py_str (sn_AvailabilityZone sd)]) (\<lambda>_.
               bind (call ec2 (CreateSubnet new_vpc_id cidr_block
                      (if truthy (sn_AvailabilityZone sd) then sn_AvailabilityZone sd
                       else None))) (\<lambda>new_subnet_id.
               bind (apply_tags ec2 (sn_Tags sd) new_subnet_id) (\<lambda>_.
               bind (if_then (sn_MapPublicIpOnLaunch sd = Some True)
                      (bind (call ec2 (ModifySubnetAttributeMapPublicIp new_subnet_id True))
                         (\<lambda>_. ret ()))) (\<lambda>_.
               bind (logger INFO ''Created subnet {}'' [new_subnet_id]) (\<lambda>_.
               (\<lambda>st. (Inr (), st\<lparr>cr_subnets :=
                   AList.update (sn_SubnetId sd) new_subnet_id (cr_subnets st)\<rparr>))))))))
              (\<lambda>e. logger ERROR ''Error creating subnet: {}'' [e]))"

fun restore_subnets :: "ec2 \<Rightarrow> subnet_data list \<Rightarrow> string \<Rightarrow> unit step" where
  "restore_subnets ec2 [] new_vpc_id = ret ()"
| "restore_subnets ec2 (sd # sds) new_vpc_id =
     bind (restore_subnet ec2 new_vpc_id sd) (\<lambda>_. restore_subnets ec2 sds new_vpc_id)"

section \<open>Route tables\<close>

text \<open>The body of the loop over \<open>rt_data['Routes']\<close>.\<close>

definition restore_route :: "ec2 \<Rightarrow> string \<Rightarrow> string option \<Rightarrow> route \<Rightarrow> unit step" where
  "restore_route ec2 new_rt_id igw_id r =
     (if GatewayId r = Some ''local'' then ret ()
      else case DestinationCidrBlock r of
        None \<Rightarrow> ret ()
      | Some dest_cidr \<Rightarrow>
          if dest_cidr = [] then ret ()
          else (case (GatewayId r, igw_id) of
              (Some gw, Some igw) \<Rightarrow>
                if gw \<noteq> [] \<and> contains gw ''igw-'' \<and> igw \<noteq> [] then
                  bind (logger INFO ''Creating route to {} via Internet Gateway'' [dest_cidr])
                    (\<lambda>_.
                  try_except_ClientError
                    (bind (call ec2 (CreateRoute new_rt_id dest_cidr igw)) (\<lambda>_. ret ()))
                    (\<lambda>e. logger ERROR ''Error creating route: {}'' [e]))
                else ret ()
            | _ \<Rightarrow> ret ()))"

fun restore_routes :: "ec2 \<Rightarrow> string \<Rightarrow> string option \<Rightarrow> route list \<Rightarrow> unit step" where
  "restore_routes ec2 new_rt_id igw_id [] = ret ()"
| "restore_routes ec2 new_rt_id igw_id (r # rs) =
     bind (restore_route ec2 new_rt_id igw_id r) (\<lambda>_. restore_routes ec2 new_rt_id igw_id rs)"

text \<open>The body of the loop over \<open>rt_data['Associations']\<close>.\<close>

definition restore_association :: "ec2 \<Rightarrow> string \<Rightarrow> association \<Rightarrow> unit step" where
  "restore_association ec2 new_rt_id a st =
     (if as_Main a = Some True then ret () st
      else if \<not> truthy (as_SubnetId a) then ret () st
      else (case map_of (cr_subnets st) (as_SubnetId a) of
          None \<Rightarrow> ret () st
        | Some new_subnet_id \<Rightarrow>
            bind (logger INFO ''Associating route table {} with subnet {}''
                   [new_rt_id, new_subnet_id]) (\<lambda>_.
            try_except_ClientError
              (bind (call ec2 (AssociateRouteTable new_rt_id new_subnet_id)) (\<lambda>_. ret ()))
              (\<lambda>e. logger ERROR ''Error associating route table: {}'' [e])) st))"

fun restore_associations :: "ec2 \<Rightarrow> string \<Rightarrow> association list \<Rightarrow> unit step" where
  "restore_associations ec2 new_rt_id [] = ret ()"
| "restore_associations ec2 new_rt_id (a # as) =
     bind (restore_association ec2 new_rt_id a) (\<lambda>_. restore_associations ec2 new_rt_id as)"

text \<open>The body of the loop of \<open>restore_route_tables\<close>.\<close>

definition restore_route_table ::
    "ec2 \<Rightarrow> string \<Rightarrow> string option \<Rightarrow> rt_data \<Rightarrow> unit step" where
  "restore_route_table ec2 new_vpc_id igw_id rd =
     try_except_ClientError
       (bind (logger INFO ''Creating new route table'' []) (\<lambda>_.
        bind (call ec2 (CreateRouteTable new_vpc_id)) (\<lambda>new_rt_id.
        bind (apply_tags ec2 (rt_Tags rd) new_rt_id) (\<lambda>_.
        bind (case rt_Routes rd of None \<Rightarrow> ret ()
              | Some rs \<Rightarrow> restore_routes ec2 new_rt_id igw_id rs) (\<lambda>_.
        bind (case rt_Associations rd of None \<Rightarrow> ret ()
              | Some as \<Rightarrow> restore_associations ec2 new_rt_id as) (\<lambda>_.
        bind (\<lambda>st. (Inr (), st\<lparr>cr_route_tables :=
                AList.update (rt_RouteTableId rd) new_rt_id (cr_route_tables st)\<rparr>)) (\<lambda>_.
        logger INFO ''Created route table {}'' [new_rt_id])))))))
       (\<lambda>e. logger ERROR ''Error creating route table: {}'' [e])"

fun restore_route_tables ::
    "ec2 \<Rightarrow> rt_data list \<Rightarrow> string \<Rightarrow> string option \<Rightarrow> unit step" where
  "restore_route_tables ec2 [] new_vpc_id igw_id = ret ()"
| "restore_route_tables ec2 (rd # rds) new_vpc_id igw_id =
     bind (restore_route_table ec2 new_vpc_id igw_id rd)
       (\<lambda>_. restore_route_tables ec2 rds new_vpc_id igw_id)"

section \<open>Security groups\<close>

text \<open>\<open>_clean_sg_rule\<close>: \<open>None\<close> for a rule without protocol.\<close>

definition clean_ip_ranges :: "ip_range list \<Rightarrow> ip_range list" where
  "clean_ip_ranges rs =
     map (\<lambda>r. \<lparr>CidrIp = CidrIp r, ip_Description = ip_Description r\<rparr>)
       (filter (\<lambda>r. CidrIp r \<noteq> None) rs)"

definition clean_ipv6_ranges :: "ipv6_range list \<Rightarrow> ipv6_range list" where
  "clean_ipv6_ranges rs =
     map (\<lambda>r. \<lparr>CidrIpv6 = CidrIpv6 r, ip6_Description = ip6_Description r\<rparr>)
       (filter (\<lambda>r. CidrIpv6 r \<noteq> None) rs)"

definition clean_sg_rule :: "rule \<Rightarrow> rule option" where
  "clean_sg_rule r =
     (case IpProtocol r of
        None \<Rightarrow> None
      | Some p \<Rightarrow>
          Some \<lparr> IpProtocol = Some p, FromPort = FromPort r, ToPort = ToPort r,
                 IpRanges = (case IpRanges r of
                     None \<Rightarrow> None
                   | Some rs \<Rightarrow> if rs = [] then None else Some (clean_ip_ranges rs)),
                 Ipv6Ranges = (case Ipv6Ranges r of
                     None \<Rightarrow> None
                   | Some rs \<Rightarrow> if rs = [] then None else Some (clean_ipv6_ranges rs)) \<rparr>)"

text \<open>The body of the first loop of \<open>restore_security_groups\<close>: the groups.\<close>

definition create_group :: "ec2 \<Rightarrow> string \<Rightarrow> sg_data \<Rightarrow> unit step" where
  "create_group ec2 new_vpc_id sd =
     (if sg_GroupName sd = Some ''default'' then ret ()
      else
        try_except_ClientError
          (bind (logger INFO ''Creating security group {}'' [py_str (sg_GroupName sd)]) (\<lambda>_.
           bind (call ec2 (CreateSecurityGroup (sg_GroupName sd)
                   (case sg_Description sd of None \<Rightarrow> ''Restored security group''
                    | Some d \<Rightarrow> d) new_vpc_id)) (\<lambda>new_sg_id.
           bind (apply_tags ec2 (sg_Tags sd) new_sg_id) (\<lambda>_.
           (\<lambda>st. (Inr (), st\<lparr>cr_security_groups :=
               AList.update (sg_GroupId sd) new_sg_id (cr_security_groups st)\<rparr>))))))
          (\<lambda>e. logger ERROR ''Error creating security group: {}'' [e]))"

fun create_groups :: "ec2 \<Rightarrow> string \<Rightarrow> sg_data list \<Rightarrow> unit step" where
  "create_groups ec2 new_vpc_id [] = ret ()"
| "create_groups ec2 new_vpc_id (sd # sds) =
     bind (create_group ec2 new_vpc_id sd) (\<lambda>_. create_groups ec2 new_vpc_id sds)"

text \<open>One ingress rule of the second loop, with its own \<open>try\<close>.\<close>

definition add_ingress_rule :: "ec2 \<Rightarrow> string \<Rightarrow> rule \<Rightarrow> unit step" where
  "add_ingress_rule ec2 new_sg_id r =
     try_except_ClientError
       (case clean_sg_rule r of
          None \<Rightarrow> ret ()
        | Some clean_rule \<Rightarrow>
            bind (logger INFO ''Adding ingress rule to security group {}'' [new_sg_id]) (\<lambda>_.
            bind (call ec2 (AuthorizeSecurityGroupIngress new_sg_id clean_rule))
              (\<lambda>_. ret ())))
       (\<lambda>e. if_then (\<not> contains e ''InvalidPermission.Duplicate'')
               (logger ERROR ''Error adding ingress rule: {}'' [e]))"

fun add_ingress_rules :: "ec2 \<Rightarrow> string \<Rightarrow> rule list \<Rightarrow> unit step" where
  "add_ingress_rules ec2 new_sg_id [] = ret ()"
| "add_ingress_rules ec2 new_sg_id (r # rs) =
     bind (add_ingress_rule ec2 new_sg_id r) (\<lambda>_. add_ingress_rules ec2 new_sg_id rs)"

definition add_egress_rule :: "ec2 \<Rightarrow> string \<Rightarrow> rule \<Rightarrow> unit step" where
  "add_egress_rule ec2 new_sg_id r =
     try_except_ClientError
       (case clean_sg_rule r of
          None \<Rightarrow> ret ()
        | Some clean_rule \<Rightarrow>
            bind (logger INFO ''Adding egress rule to security group {}'' [new_sg_id]) (\<lambda>_.
            bind (call ec2 (AuthorizeSecurityGroupEgress new_sg_id clean_rule))
              (\<lambda>_. ret ())))
       (\<lambda>e. if_then (\<not> contains e ''InvalidPermission.Duplicate'')
               (logger ERROR ''Error adding egress rule: {}'' [e]))"

fun add_egress_rules :: "ec2 \<Rightarrow> string \<Rightarrow> rule list \<Rightarrow> unit step" where
  "add_egress_rules ec2 new_sg_id [] = ret ()"
| "add_egress_rules ec2 new_sg_id (r # rs) =
     bind (add_egress_rule ec2 new_sg_id r) (\<lambda>_. add_egress_rules ec2 new_sg_id rs)"

text \<open>The default egress rule that is revoked before the captured ones are added.\<close>

definition default_egress_rule :: rule where
  "default_egress_rule =
     \<lparr> IpProtocol = Some ''-1'', FromPort = None, ToPort = None,
       IpRanges = Some [\<lparr>CidrIp = Some ''0.0.0.0/0'', ip_Description = None\<rparr>],
       Ipv6Ranges = None \<rparr>"

text \<open>The body of the second loop of \<open>restore_security_groups\<close>: the rules.\<close>

definition add_group_rules :: "ec2 \<Rightarrow> sg_data \<Rightarrow> unit step" where
  "add_group_rules ec2 sd st =
     (if sg_GroupName sd = Some ''default'' then ret () st
      else (case map_of (cr_security_groups st) (sg_GroupId sd) of
          None \<Rightarrow> ret () st
        | Some new_sg_id \<Rightarrow>
            bind (case sg_IpPermissions sd of None \<Rightarrow> ret ()
                  | Some rs \<Rightarrow> add_ingress_rules ec2 new_sg_id rs) (\<lambda>_.
            (case sg_IpPermissionsEgress sd of
               None \<Rightarrow> ret ()
             | Some rs \<Rightarrow>
                 bind (try_except_ClientError
                         (bind (call ec2 (RevokeSecurityGroupEgress new_sg_id
                                  default_egress_rule)) (\<lambda>_. ret ()))
                         (\<lambda>e. ret ())) (\<lambda>_.
                 add_egress_rules ec2 new_sg_id rs))) st))"

fun add_groups_rules :: "ec2 \<Rightarrow> sg_data list \<Rightarrow> unit step" where
  "add_groups_rules ec2 [] = ret ()"
| "add_groups_rules ec2 (sd # sds) =
     bind (add_group_rules ec2 sd) (\<lambda>_. add_groups_rules ec2 sds)"

definition restore_security_groups :: "ec2 \<Rightarrow> sg_data list \<Rightarrow> string \<Rightarrow> unit step" where
  "restore_security_groups ec2 sg_data_list new_vpc_id =
     bind (create_groups ec2 new_vpc_id sg_data_list) (\<lambda>_.
     add_groups_rules ec2 sg_data_list)"

section \<open>Loading a backup\<close>

text \<open>
  The key under which \<open>VpcBackup._save_to_s3\<close> stores a snapshot: the prefix
  given to the backup (\<open>vpc-backups\<close> when none is), the account, the region given to
  the backup (\<open>default\<close> when none is), the timestamp, and the name of the file.
\<close>

definition save_key ::
    "string option \<Rightarrow> string \<Rightarrow> string option \<Rightarrow> string \<Rightarrow> string \<Rightarrow> string" where
  "save_key prefix account backup_region ts format_type =
     py_str (py_or prefix (Some ''vpc-backups'')) @ ''/'' @ account @ ''/''
       @ py_str (py_or backup_region (Some ''default'')) @ ''/'' @ ts
       @ ''/vpc_config.'' @ format_type"

text \<open>The prefix under which the restore looks for snapshots.\<close>

definition backup_prefix :: "VpcRestore \<Rightarrow> string" where
  "backup_prefix st =
     ''vpc-backups/'' @ account_id st @ ''/'' @ py_str (py_or (region st) (current_region st))
       @ ''/''"

text \<open>\<open>xs[-2]\<close>: an \<open>IndexError\<close> on a list shorter than two.\<close>

definition second_last :: "'a list \<Rightarrow> exc + 'a" where
  "second_last xs =
     (if length xs < 2 then Inl OtherException else Inr (xs ! (length xs - 2)))"

text \<open>
  \<open>find_latest_backup\<close>.  \<open>sorted(...)[-1]\<close> is taken on a list the test before it
  has found non-empty.
\<close>

definition find_latest_backup :: "s3 \<Rightarrow> string option step" where
  "find_latest_backup s3c st =
     (case list_objects_v2 s3c (bucket st) (backup_prefix st) of
        ListRaises (ClientError e) \<Rightarrow>
          bind (logger ERROR ''Error finding latest backup: {}'' [e]) (\<lambda>_. ret None) st
      | ListRaises OtherException \<Rightarrow> (Inl OtherException, st)
      | CommonPrefixes None \<Rightarrow>
          bind (logger ERROR ''No backups found with prefix: {}'' [backup_prefix st])
            (\<lambda>_. ret None) st
      | CommonPrefixes (Some ps) \<Rightarrow>
          if ps = [] then
            bind (logger ERROR ''No backups found with prefix: {}'' [backup_prefix st])
              (\<lambda>_. ret None) st
          else
            (let latest_prefix = last (sort ps) in
             case second_last (split CHR ''/'' latest_prefix) of
               Inl e \<Rightarrow> (Inl e, st)
             | Inr ts \<Rightarrow>
                 bind (\<lambda>st. (Inr (), st\<lparr>timestamp := Some ts\<rparr>)) (\<lambda>_.
                 bind (logger INFO ''Found latest backup from {}'' [ts]) (\<lambda>_.
                 ret (Some latest_prefix))) st))"

text \<open>
  The two reads of \<open>load_backup_data\<close>: JSON first, YAML when the JSON key does not
  exist.  The text of a \<open>ClientError\<close> of S3 is its error code.
\<close>

definition read_backup :: "s3 \<Rightarrow> string \<Rightarrow> backup_data option step" where
  "read_backup s3c prefix st =
     bind (logger INFO ''Loading backup from s3://{}/{}''
             [bucket st, prefix @ ''vpc_config.json'']) (\<lambda>_ st.
     case get_object s3c (bucket st) (prefix @ ''vpc_config.json'') of
       Body b \<Rightarrow>
         bind (logger INFO ''Successfully loaded JSON backup from {}'' [py_str (timestamp st)])
           (\<lambda>_. ret (Some b)) st
     | GetRaises OtherException \<Rightarrow> (Inl OtherException, st)
     | GetRaises (ClientError code) \<Rightarrow>
         if code = ''NoSuchKey'' then
           bind (logger INFO ''JSON not found, trying YAML: s3://{}/{}''
                   [bucket st, prefix @ ''vpc_config.yaml'']) (\<lambda>_ st.
           case get_object s3c (bucket st) (prefix @ ''vpc_config.yaml'') of
             Body b \<Rightarrow>
               bind (logger INFO ''Successfully loaded YAML backup from {}''
                       [py_str (timestamp st)]) (\<lambda>_. ret (Some b)) st
           | GetRaises OtherException \<Rightarrow> (Inl OtherException, st)
           | GetRaises (ClientError e2) \<Rightarrow>
               bind (logger ERROR ''Error loading YAML backup: {}'' [e2]) (\<lambda>_. ret None) st) st
         else
           bind (logger ERROR ''Error loading JSON backup: {}'' [code]) (\<lambda>_. ret None) st) st"

definition load_backup_data :: "s3 \<Rightarrow> backup_data option step" where
  "load_backup_data s3c st =
     (if \<not> truthy (timestamp st) then
        bind (find_latest_backup s3c) (\<lambda>prefix.
          if \<not> truthy prefix then ret None else read_backup s3c (py_str prefix)) st
      else
        read_backup s3c (backup_prefix st @ py_str (timestamp st) @ ''/'') st)"

section \<open>The restore run\<close>

text \<open>The report loops: \<open>for k, v in self.created_resources[kind].items()\<close>.\<close>

fun report :: "string \<Rightarrow> (string option \<times> string) list \<Rightarrow> unit step" where
  "report kind [] = ret ()"
| "report kind ((k, v) # kvs) =
     bind (logger INFO kind [py_str k, v]) (\<lambda>_. report kind kvs)"

text \<open>
  The body of the loop of \<open>restore_vpc_from_backup\<close>, for one identifier of
  \<open>vpc_ids\<close>.  \<open>vpcs[vpc_id]\<close> raises \<open>KeyError\<close> on a missing key.
\<close>

definition restore_one :: "ec2 \<Rightarrow> (string \<times> vpc_data) list \<Rightarrow> string \<Rightarrow> unit step" where
  "restore_one ec2 vs vid =
     (case map_of vs vid of
        None \<Rightarrow> (\<lambda>st. (Inl OtherException, st))
      | Some vpc_details \<Rightarrow>
          bind (logger INFO ''Restoring VPC {}...'' [vid]) (\<lambda>_.
          bind (restore_vpc ec2 vpc_details) (\<lambda>new_vpc.
          if \<not> truthy new_vpc then logger ERROR ''Failed to restore VPC {}'' [vid]
          else
            (let new_vpc_id = py_str new_vpc in
             bind (case internet_gateways vpc_details of
                     None \<Rightarrow> ret None
                   | Some [] \<Rightarrow> ret None
                   | Some (igw_data # _) \<Rightarrow>
                       restore_internet_gateway ec2 (Some igw_data) new_vpc_id) (\<lambda>new_igw_id.
             bind (logger INFO ''Restoring subnets...'' []) (\<lambda>_.
             bind (restore_subnets ec2
                     (case subnets vpc_details of None \<Rightarrow> [] | Some l \<Rightarrow> l) new_vpc_id) (\<lambda>_.
             bind (logger INFO ''Restoring route tables...'' []) (\<lambda>_.
             bind (restore_route_tables ec2
                     (case route_tables vpc_details of None \<Rightarrow> [] | Some l \<Rightarrow> l)
                     new_vpc_id new_igw_id) (\<lambda>_.
             bind (logger INFO ''Restoring security groups...'' []) (\<lambda>_.
             bind (restore_security_groups ec2
                     (case security_groups vpc_details of None \<Rightarrow> [] | Some l \<Rightarrow> l)
                     new_vpc_id) (\<lambda>_.
             bind (logger INFO ''VPC {} has been restored to {}'' [vid, new_vpc_id]) (\<lambda>_.
             bind (logger INFO ''Resource mappings (original ID -> new ID):'' []) (\<lambda>_.
             bind (logger INFO ''  VPC: {} -> {}'' [vid, new_vpc_id]) (\<lambda>_.
             bind (\<lambda>st. report ''  Subnet: {} -> {}'' (cr_subnets st) st) (\<lambda>_.
             bind (\<lambda>st. report ''  Route Table: {} -> {}'' (cr_route_tables st) st) (\<lambda>_.
             (\<lambda>st. report ''  Security Group: {} -> {}'' (cr_security_groups st) st)
             ))))))))))))))))"

fun restore_all :: "ec2 \<Rightarrow> (string \<times> vpc_data) list \<Rightarrow> string list \<Rightarrow> unit step" where
  "restore_all ec2 vs [] = ret ()"
| "restore_all ec2 vs (vid # vids) =
     bind (restore_one ec2 vs vid) (\<lambda>_. restore_all ec2 vs vids)"

text \<open>\<open>restore_vpc_from_backup\<close>: the value returned is the \<open>success\<close> of the run.\<close>

definition restore_vpc_from_backup :: "s3 \<Rightarrow> ec2 \<Rightarrow> bool step" where
  "restore_vpc_from_backup s3c ec2 =
     bind (load_backup_data s3c) (\<lambda>loaded.
     case loaded of
       None \<Rightarrow> bind (logger ERROR ''Failed to load backup data'' []) (\<lambda>_. ret False)
     | Some b \<Rightarrow>
         if metadata b = None \<and> vpcs b = None then
           bind (logger ERROR ''Failed to load backup data'' []) (\<lambda>_. ret False)
         else (case vpcs b of
             None \<Rightarrow> bind (logger ERROR ''No VPCs found in backup data'' []) (\<lambda>_. ret False)
           | Some vs \<Rightarrow>
               if vs = [] then
                 bind (logger ERROR ''No VPCs found in backup data'' []) (\<lambda>_. ret False)
               else (\<lambda>st.
                 if truthy (target_vpc_id st)
                    \<and> map_of vs (py_str (target_vpc_id st)) = None then
                   bind (logger ERROR ''VPC {} not found in backup data''
                           [py_str (target_vpc_id st)]) (\<lambda>_. ret False) st
                 else
                   bind (restore_all ec2 vs
                           (if truthy (target_vpc_id st) then [py_str (target_vpc_id st)]
                            else map fst vs)) (\<lambda>_. ret True) st)))"

text \<open>
  The arguments of the \<open>restore\<close> command, and what boto3 and STS answer to the
  constructor of \<open>VpcRestore\<close>: the account and the region name of the session, or an
  exception.
\<close>

record restore_args =
  arg_bucket :: string
  arg_timestamp :: "string option"
  arg_vpc_id :: "string option"
  arg_region :: "string option"
  arg_profile :: "string option"

datatype session = Session string "string option" | SessionRaises exc

definition new_VpcRestore :: "session \<Rightarrow> restore_args \<Rightarrow> exc + VpcRestore" where
  "new_VpcRestore sess args =
     (case sess of
        SessionRaises e \<Rightarrow> Inl e
      | Session acct cur \<Rightarrow>
          Inr (init (arg_bucket args) (arg_timestamp args) (arg_vpc_id args) (arg_region args)
                 acct cur))"

definition exc_text :: "exc \<Rightarrow> string" where
  "exc_text e = (case e of ClientError m \<Rightarrow> m | OtherException \<Rightarrow> ''exception'')"

text \<open>
  \<open>cmd_restore\<close>: the exit code of the command, its whole log, and the final object
  when the constructor has returned.  The constructor and the restore are in one
  \<open>try\<close>, whose handler catches every exception.
\<close>

definition cmd_restore ::
    "session \<Rightarrow> s3 \<Rightarrow> ec2 \<Rightarrow> restore_args \<Rightarrow> int \<times> log_record list \<times> VpcRestore option" where
  "cmd_restore sess s3c ec2 args =
     (case new_VpcRestore sess args of
        Inl e \<Rightarrow> (1, [Log ERROR ''Unexpected error during restore: {}'' [exc_text e]], None)
      | Inr st \<Rightarrow>
          (case restore_vpc_from_backup s3c ec2 st of
             (Inr success, st') \<Rightarrow>
               if success then
                 (0, logs st' @ [Log INFO ''VPC restore completed successfully'' []], Some st')
               else (1, logs st' @ [Log ERROR ''VPC restore failed'' []], Some st')
           | (Inl e, st') \<Rightarrow>
               (1, logs st' @ [Log ERROR ''Unexpected error during restore: {}'' [exc_text e]],
                Some st')))"

section \<open>Observations on a run\<close>

text \<open>The calls and the log records a step has added to those of the state before it.\<close>

definition calls_since :: "VpcRestore \<Rightarrow> VpcRestore \<Rightarrow> api_call list" where
  "calls_since st st' = drop (length (trace st)) (trace st')"

definition logs_since :: "VpcRestore \<Rightarrow> VpcRestore \<Rightarrow> log_record list" where
  "logs_since st st' = drop (length (logs st)) (logs st')"

fun is_CreateRoute :: "api_call \<Rightarrow> bool" where
  "is_CreateRoute (CreateRoute _ _ _) = True"
| "is_CreateRoute _ = False"

fun is_ModifyVpcAttribute :: "api_call \<Rightarrow> bool" where
  "is_ModifyVpcAttribute (ModifyVpcAttribute _ _) = True"
| "is_ModifyVpcAttribute _ = False"

text \<open>
  The provisioning platform's side of the two DNS attributes of a network: the value is
  the platform's default \<open>d\<close> until a \<open>modify_vpc_attribute\<close> call for that network
  sets it.
\<close>

fun dns_support_after :: "bool \<Rightarrow> string \<Rightarrow> api_call list \<Rightarrow> bool" where
  "dns_support_after d v [] = d"
| "dns_support_after d v (ModifyVpcAttribute v' (AttrEnableDnsSupport b) # cs) =
     dns_support_after (if v' = v then b else d) v cs"
| "dns_support_after d v (_ # cs) = dns_support_after d v cs"

fun dns_hostnames_after :: "bool \<Rightarrow> string \<Rightarrow> api_call list \<Rightarrow> bool" where
  "dns_hostnames_after d v [] = d"
| "dns_hostnames_after d v (ModifyVpcAttribute v' (AttrEnableDnsHostnames b) # cs) =
     dns_hostnames_after (if v' = v then b else d) v cs"
| "dns_hostnames_after d v (_ # cs) = dns_hostnames_after d v cs"

text \<open>The two tests \<open>restore_route_tables\<close> makes on the target of a route.\<close>

definition is_local_route :: "route \<Rightarrow> bool" where
  "is_local_route r = (GatewayId r = Some ''local'')"

definition is_igw_route :: "route \<Rightarrow> bool" where
  "is_igw_route r = (case GatewayId r of None \<Rightarrow> False | Some gw \<Rightarrow> contains gw ''igw-'')"

text \<open>
  What S3 answers to the one \<open>list_objects_v2\<close> call of the code, with delimiter
  \<open>/\<close>, when the snapshots stored under \<open>prefix\<close> have the timestamps \<open>tss\<close>:
  one common prefix for each timestamp, in the order of the keys, the first
  \<open>max_keys\<close> of them only (the code sets no page size and follows no continuation
  token), and no \<open>CommonPrefixes\<close> key when there is none.
\<close>

definition max_keys :: nat where
  "max_keys = 1000"

definition stored_snapshots :: "string \<Rightarrow> string list \<Rightarrow> list_response" where
  "stored_snapshots prefix tss =
     CommonPrefixes
       (if tss = [] then None
        else Some (take max_keys (sort (remdups (map (\<lambda>ts. prefix @ ts @ ''/'') tss)))))"

text \<open>
  Every call of \<open>cs\<close>, issued in this order after the calls \<open>h\<close>, is answered
  without exception.
\<close>

fun all_ok :: "ec2 \<Rightarrow> api_call list \<Rightarrow> api_call list \<Rightarrow> bool" where
  "all_ok ec2 h [] = True"
| "all_ok ec2 h (c # cs) =
     (case ec2 h c of Ok r \<Rightarrow> all_ok ec2 (h @ [c]) cs | Raises e \<Rightarrow> False)"

text \<open>
  The identifier of the object that the API creates by the call \<open>c\<close> after the calls
  \<open>h\<close>, when the calls that follow its creation are all answered without exception.
\<close>

definition created :: "ec2 \<Rightarrow> api_call list \<Rightarrow> api_call \<Rightarrow> (string \<Rightarrow> api_call list) \<Rightarrow>
    string option" where
  "created ec2 h c follow =
     (case ec2 h c of
        Ok n \<Rightarrow> if all_ok ec2 (h @ [c]) (follow n) then Some n else None
      | Raises e \<Rightarrow> None)"

text \<open>The calls that tag a new object: of the network, of any other object.\<close>

definition vpc_tag_calls :: "tag list option \<Rightarrow> string \<Rightarrow> api_call list" where
  "vpc_tag_calls tags n =
     (case tags of
        None \<Rightarrow> []
      | Some ts \<Rightarrow> if vpc_tag_specs ts = [] then [] else [CreateTags n (vpc_tag_specs ts)])"

definition tag_calls :: "tag list option \<Rightarrow> string \<Rightarrow> api_call list" where
  "tag_calls tags n =
     (case tags of
        None \<Rightarrow> []
      | Some ts \<Rightarrow> if tag_specs ts = [] then [] else [CreateTags n (tag_specs ts)])"

text \<open>The calls that follow the creation of a network, and of a subnet.\<close>

definition vpc_follow :: "vpc_data \<Rightarrow> string \<Rightarrow> api_call list" where
  "vpc_follow vd n =
     [WaitVpcAvailable n] @ vpc_tag_calls (vpc_Tags vd) n
     @ (if EnableDnsSupport vd \<noteq> Some False
        then [ModifyVpcAttribute n (AttrEnableDnsSupport True)] else [])
     @ (if EnableDnsHostnames vd = Some True
        then [ModifyVpcAttribute n (AttrEnableDnsHostnames True)] else [])"

definition subnet_follow :: "subnet_data \<Rightarrow> string \<Rightarrow> api_call list" where
  "subnet_follow sd n =
     tag_calls (sn_Tags sd) n
     @ (if sn_MapPublicIpOnLaunch sd = Some True
        then [ModifySubnetAttributeMapPublicIp n True] else [])"

section \<open>Properties of steps\<close>

text \<open>A call that would create a security group named \<open>default\<close>.\<close>

definition creates_default_group :: "api_call \<Rightarrow> bool" where
  "creates_default_group c =
     (case c of CreateSecurityGroup n d v \<Rightarrow> n = Some ''default'' | _ \<Rightarrow> False)"

text \<open>
  What a step may do to the object: add calls, none of them creating a group named
  \<open>default\<close>; add entries to the tables of created resources, the new keys of the
  security-group table being in \<open>S\<close>.  No key is removed.
\<close>

definition grows :: "string option set \<Rightarrow> VpcRestore \<Rightarrow> VpcRestore \<Rightarrow> bool" where
  "grows S st st' =
     ((\<exists>cs. trace st' = trace st @ cs \<and> list_all (\<lambda>c. \<not> creates_default_group c) cs)
      \<and> dom (map_of (cr_subnets st)) \<subseteq> dom (map_of (cr_subnets st'))
      \<and> dom (map_of (cr_route_tables st)) \<subseteq> dom (map_of (cr_route_tables st'))
      \<and> dom (map_of (cr_security_groups st)) \<subseteq> dom (map_of (cr_security_groups st'))
      \<and> dom (map_of (cr_security_groups st')) \<subseteq> dom (map_of (cr_security_groups st)) \<union> S
      \<and> dom (map_of (cr_internet_gateways st)) \<subseteq> dom (map_of (cr_internet_gateways st')))"

text \<open>Every run of the step \<open>m\<close> relates the object before to the object after.\<close>

definition preserves :: "(VpcRestore \<Rightarrow> VpcRestore \<Rightarrow> bool) \<Rightarrow> 'a step \<Rightarrow> bool" where
  "preserves R m = (\<forall>st r st'. m st = (r, st') \<longrightarrow> R st st')"

text \<open>A step that adds calls to the trace, none of them a \<open>create_route\<close>.\<close>

definition no_routes :: "VpcRestore \<Rightarrow> VpcRestore \<Rightarrow> bool" where
  "no_routes st st' = (\<exists>cs. trace st' = trace st @ cs \<and> filter is_CreateRoute cs = [])"

section \<open>Sample inputs\<close>

text \<open>An EC2 client on which every call succeeds; the new identifiers tell what they are.\<close>

definition ok_ec2 :: ec2 where
  "ok_ec2 h c =
     Ok (case c of
           CreateVpc cidr \<Rightarrow> ''vpc-new-'' @ cidr
         | CreateInternetGateway \<Rightarrow> ''igw-new''
         | CreateSubnet v cidr az \<Rightarrow> ''subnet-new-'' @ cidr
         | CreateRouteTable v \<Rightarrow> ''rtb-new''
         | CreateSecurityGroup n d v \<Rightarrow> ''sg-new-'' @ py_str n
         | _ \<Rightarrow> [])"

text \<open>An EC2 client that refuses to create networks.\<close>

definition no_vpc_ec2 :: ec2 where
  "no_vpc_ec2 h c =
     (case c of CreateVpc cidr \<Rightarrow> Raises (ClientError ''VpcLimitExceeded'')
      | _ \<Rightarrow> ok_ec2 h c)"

definition restore0 :: VpcRestore where
  "restore0 = init ''bkt'' None None (Some ''eu-west-1'') ''111122223333'' (Some ''eu-west-1'')"

definition subnet_a :: subnet_data where
  "subnet_a = \<lparr> sn_SubnetId = Some ''subnet-a'', sn_CidrBlock = Some ''10.0.1.0/24'',
     sn_AvailabilityZone = Some ''eu-west-1a'', sn_Tags = None,
     sn_MapPublicIpOnLaunch = None \<rparr>"

definition vpc_1 :: vpc_data where
  "vpc_1 = \<lparr> vpc_id = ''vpc-1'', vpc_CidrBlock = Some ''10.0.0.0/16'', vpc_Tags = None,
     EnableDnsSupport = None, EnableDnsHostnames = None, internet_gateways = None,
     subnets = Some [subnet_a], route_tables = None, security_groups = None \<rparr>"

definition vpc_2 :: vpc_data where
  "vpc_2 = \<lparr> vpc_id = ''vpc-2'', vpc_CidrBlock = Some ''10.1.0.0/16'', vpc_Tags = None,
     EnableDnsSupport = None, EnableDnsHostnames = None, internet_gateways = None,
     subnets = None, route_tables = None, security_groups = None \<rparr>"

definition two_vpcs :: "(string \<times> vpc_data) list" where
  "two_vpcs = [(''vpc-1'', vpc_1), (''vpc-2'', vpc_2)]"

text \<open>A store with one snapshot, of the two networks above.\<close>

definition one_snapshot_s3 :: s3 where
  "one_snapshot_s3 =
     \<lparr> list_objects_v2 = (\<lambda>b p. stored_snapshots p [''2024-01-01-00-00-00'']),
       get_object = (\<lambda>b k. Body \<lparr> metadata = Some [], vpcs = Some two_vpcs \<rparr>) \<rparr>"

text \<open>An EC2 client that rejects every rule it is asked to authorize.\<close>

definition reject_rules_ec2 :: ec2 where
  "reject_rules_ec2 h c =
     (case c of
        AuthorizeSecurityGroupIngress g r \<Rightarrow> Raises (ClientError ''InvalidParameterValue'')
      | AuthorizeSecurityGroupEgress g r \<Rightarrow> Raises (ClientError ''InvalidParameterValue'')
      | _ \<Rightarrow> ok_ec2 h c)"

text \<open>A network created by CloudFormation, which tags it with its stack.\<close>

definition cfn_tags :: "tag list" where
  "cfn_tags = [\<lparr>Key = ''aws:cloudformation:stack-id'', Value = ''stack/prod/1''\<rparr>,
               \<lparr>Key = ''Name'', Value = ''prod''\<rparr>]"

definition vpc_cfn :: vpc_data where
  "vpc_cfn = \<lparr> vpc_id = ''vpc-1'', vpc_CidrBlock = Some ''10.0.0.0/16'',
     vpc_Tags = Some cfn_tags,
     EnableDnsSupport = None, EnableDnsHostnames = None, internet_gateways = None,
     subnets = None, route_tables = None, security_groups = None \<rparr>"

text \<open>A network captured with DNS support disabled and DNS hostnames enabled.\<close>

definition vpc_no_dns :: vpc_data where
  "vpc_no_dns = \<lparr> vpc_id = ''vpc-1'', vpc_CidrBlock = Some ''10.0.0.0/16'', vpc_Tags = None,
     EnableDnsSupport = Some False, EnableDnsHostnames = Some True, internet_gateways = None,
     subnets = None, route_tables = None, security_groups = None \<rparr>"

text \<open>A route to a NAT gateway.\<close>

definition nat_route :: route where
  "nat_route = \<lparr> DestinationCidrBlock = Some ''0.0.0.0/0'', GatewayId = None,
     NatGatewayId = Some ''nat-0a1'', InstanceId = None, VpcPeeringConnectionId = None \<rparr>"

text \<open>A rule without protocol, and a rule whose first range has no \<open>CidrIp\<close>.\<close>

definition rule_no_protocol :: rule where
  "rule_no_protocol = \<lparr> IpProtocol = None, FromPort = Some 22, ToPort = Some 22,
     IpRanges = Some [\<lparr>CidrIp = Some ''10.0.0.0/8'', ip_Description = None\<rparr>],
     Ipv6Ranges = None \<rparr>"

definition rule_mixed :: rule where
  "rule_mixed = \<lparr> IpProtocol = Some ''tcp'', FromPort = Some 443, ToPort = Some 443,
     IpRanges = Some [\<lparr>CidrIp = None, ip_Description = Some ''broken''\<rparr>,
                      \<lparr>CidrIp = Some ''10.0.0.0/8'', ip_Description = Some ''office''\<rparr>],
     Ipv6Ranges = None \<rparr>"

definition rule_https :: rule where
  "rule_https = \<lparr> IpProtocol = Some ''tcp'', FromPort = Some 443, ToPort = Some 443,
     IpRanges = Some [\<lparr>CidrIp = Some ''0.0.0.0/0'', ip_Description = None\<rparr>],
     Ipv6Ranges = None \<rparr>"

text \<open>The state of the sample run after its first network.\<close>

definition after_vpc_1 :: VpcRestore where
  "after_vpc_1 = snd (restore_one ok_ec2 two_vpcs ''vpc-1'' restore0)"

text \<open>The implicit default group of a network, and a group of the user.\<close>

definition sg_default :: sg_data where
  "sg_default = \<lparr> sg_GroupId = Some ''sg-d'', sg_GroupName = Some ''default'',
     sg_Description = Some ''default VPC security group'', sg_Tags = None,
     sg_IpPermissions = Some [rule_https], sg_IpPermissionsEgress = None \<rparr>"

definition sg_web :: sg_data where
  "sg_web = \<lparr> sg_GroupId = Some ''sg-w'', sg_GroupName = Some ''web'',
     sg_Description = Some ''web tier'', sg_Tags = None,
     sg_IpPermissions = Some [rule_https], sg_IpPermissionsEgress = None \<rparr>"







text \<open>
  The command line \<open>restore --bucket bkt --vpc-id vpc-1 --region eu-west-1\<close>, the same
  for a network that the backup does not hold, the same without \<open>--vpc-id\<close>, and a
  session of the account.
\<close>

definition args_vpc_1 :: restore_args where
  "args_vpc_1 = \<lparr> arg_bucket = ''bkt'', arg_timestamp = None, arg_vpc_id = Some ''vpc-1'',
     arg_region = Some ''eu-west-1'', arg_profile = None \<rparr>"

definition args_vpc_9 :: restore_args where
  "args_vpc_9 = \<lparr> arg_bucket = ''bkt'', arg_timestamp = None, arg_vpc_id = Some ''vpc-9'',
     arg_region = Some ''eu-west-1'', arg_profile = None \<rparr>"

definition args_all :: restore_args where
  "args_all = \<lparr> arg_bucket = ''bkt'', arg_timestamp = None, arg_vpc_id = None,
     arg_region = Some ''eu-west-1'', arg_profile = None \<rparr>"

definition session_1 :: session where
  "session_1 = Session ''111122223333'' (Some ''eu-west-1'')"




text \<open>A subnet with a tag.\<close>

definition subnet_tagged :: subnet_data where
  "subnet_tagged = \<lparr> sn_SubnetId = Some ''subnet-t'', sn_CidrBlock = Some ''10.0.2.0/24'',
     sn_AvailabilityZone = None, sn_Tags = Some [\<lparr>Key = ''Name'', Value = ''app''\<rparr>],
     sn_MapPublicIpOnLaunch = None \<rparr>"






section \<open>Basic facts\<close>

lemmas step_defs =
  ret_def bind_def try_except_ClientError_def if_then_def logger_def call_def

lemma calls_since_append: "trace st' = trace st @ cs \<Longrightarrow> calls_since st st' = cs"
  by (simp add: calls_since_def)

lemma logs_since_append: "logs st' = logs st @ ls \<Longrightarrow> logs_since st st' = ls"
  by (simp add: logs_since_def)

section \<open>Tags of the network\<close>

text \<open>
  Claim C3 (fails on the code).  The claim: for every kind of object, the network
  included, the tags applied are the captured tags without those whose key is reserved
  by the platform.  Gateways, subnets, route tables and security groups go through
  \<open>tag_specs\<close>, which drops every key starting with \<open>aws:\<close>.  The network goes
  through \<open>vpc_tag_specs\<close>, which drops the single key
  \<open>aws:cloudformation:stack-name\<close>: on a network captured with the tag
  \<open>aws:cloudformation:stack-id\<close>, the filter of the other kinds keeps \<open>Name\<close> only,
  and \<open>restore_vpc\<close> sends both tags to \<open>create_tags\<close>.
\<close>

theorem vpc_reserved_tag_replayed:
  "tag_specs cfn_tags = [\<lparr>Key = ''Name'', Value = ''prod''\<rparr>]
   \<and> fst (restore_vpc ok_ec2 vpc_cfn restore0) = Inr (Some ''vpc-new-10.0.0.0/16'')
   \<and> calls_since restore0 (snd (restore_vpc ok_ec2 vpc_cfn restore0)) =
       [CreateVpc ''10.0.0.0/16'', WaitVpcAvailable ''vpc-new-10.0.0.0/16'',
        CreateTags ''vpc-new-10.0.0.0/16''
          [\<lparr>Key = ''aws:cloudformation:stack-id'', Value = ''stack/prod/1''\<rparr>,
           \<lparr>Key = ''Name'', Value = ''prod''\<rparr>],
        ModifyVpcAttribute ''vpc-new-10.0.0.0/16'' (AttrEnableDnsSupport True)]"
  by (simp add: restore_vpc_def create_vpc_def vpc_cfn_def cfn_tags_def restore0_def init_def
      ok_ec2_def step_defs calls_since_def vpc_tag_specs_def tag_specs_def startswith_def)

section \<open>DNS attributes of the network\<close>

text \<open>The calls of a successful \<open>restore_vpc\<close>, in order.\<close>

lemma restore_vpc_calls:
  assumes "restore_vpc ec2 vd st = (Inr (Some v), st')"
  shows "\<exists>cidr. calls_since st st' =
     [CreateVpc cidr, WaitVpcAvailable v]
     @ (case vpc_Tags vd of None \<Rightarrow> []
        | Some ts \<Rightarrow> if vpc_tag_specs ts = [] then [] else [CreateTags v (vpc_tag_specs ts)])
     @ (if EnableDnsSupport vd \<noteq> Some False
        then [ModifyVpcAttribute v (AttrEnableDnsSupport True)] else [])
     @ (if EnableDnsHostnames vd = Some True
        then [ModifyVpcAttribute v (AttrEnableDnsHostnames True)] else [])"
  using assms
  by (auto simp: restore_vpc_def create_vpc_def missing_vpc_cidr_def step_defs calls_since_def
      vpc_tag_specs_def
      split: option.splits if_splits response.splits exc.splits sum.splits prod.splits)

text \<open>
  Claim C2 (fails on the code).  As stated: after network creation the DNS-support
  attribute of the new network equals the captured flag, enabled when the flag is absent.
  On a platform where DNS support is enabled by default, a network captured with DNS
  support disabled is restored with DNS support enabled: \<open>restore_vpc\<close> makes no call
  for a false flag.
\<close>

theorem dns_support_disabled_counterexample:
  "EnableDnsSupport vpc_no_dns = Some False
   \<and> fst (restore_vpc ok_ec2 vpc_no_dns restore0) = Inr (Some ''vpc-new-10.0.0.0/16'')
   \<and> calls_since restore0 (snd (restore_vpc ok_ec2 vpc_no_dns restore0)) =
       [CreateVpc ''10.0.0.0/16'', WaitVpcAvailable ''vpc-new-10.0.0.0/16'',
        ModifyVpcAttribute ''vpc-new-10.0.0.0/16'' (AttrEnableDnsHostnames True)]
   \<and> dns_support_after True ''vpc-new-10.0.0.0/16''
        (calls_since restore0 (snd (restore_vpc ok_ec2 vpc_no_dns restore0))) = True"
  by (simp add: restore_vpc_def create_vpc_def vpc_no_dns_def restore0_def init_def ok_ec2_def
      step_defs calls_since_def)

text \<open>
  Claim C2, amended.  After a successful network creation, the only attribute calls are
  an enabling call for DNS support when the captured flag is true or absent and an
  enabling call for DNS hostnames when the captured flag is true.  So DNS support is
  enabled when captured enabled or absent and is otherwise what the platform's default
  \<open>d\<close> is; DNS hostnames are enabled when captured enabled and are otherwise the
  platform's default \<open>d'\<close>.
\<close>

theorem dns_attributes_restored:
  assumes "restore_vpc ec2 vd st = (Inr (Some v), st')"
  shows "filter is_ModifyVpcAttribute (calls_since st st') =
           (if EnableDnsSupport vd \<noteq> Some False
            then [ModifyVpcAttribute v (AttrEnableDnsSupport True)] else [])
           @ (if EnableDnsHostnames vd = Some True
              then [ModifyVpcAttribute v (AttrEnableDnsHostnames True)] else [])
         \<and> dns_support_after d v (calls_since st st') =
             (if EnableDnsSupport vd = Some False then d else True)
         \<and> dns_hostnames_after d' v (calls_since st st') =
             (if EnableDnsHostnames vd = Some True then True else d')"
proof -
  from restore_vpc_calls [OF assms] obtain cidr where
    c: "calls_since st st' =
     [CreateVpc cidr, WaitVpcAvailable v]
     @ (case vpc_Tags vd of None \<Rightarrow> []
        | Some ts \<Rightarrow> if vpc_tag_specs ts = [] then [] else [CreateTags v (vpc_tag_specs ts)])
     @ (if EnableDnsSupport vd \<noteq> Some False
        then [ModifyVpcAttribute v (AttrEnableDnsSupport True)] else [])
     @ (if EnableDnsHostnames vd = Some True
        then [ModifyVpcAttribute v (AttrEnableDnsHostnames True)] else [])"
    by blast
  show ?thesis
    unfolding c by (simp split: option.splits)
qed

theorem dns_attributes_restored_witness:
  "restore_vpc ok_ec2 vpc_cfn restore0 =
     (Inr (Some ''vpc-new-10.0.0.0/16''), snd (restore_vpc ok_ec2 vpc_cfn restore0))
   \<and> filter is_ModifyVpcAttribute
        (calls_since restore0 (snd (restore_vpc ok_ec2 vpc_cfn restore0))) =
       [ModifyVpcAttribute ''vpc-new-10.0.0.0/16'' (AttrEnableDnsSupport True)]
   \<and> dns_support_after False ''vpc-new-10.0.0.0/16''
        (calls_since restore0 (snd (restore_vpc ok_ec2 vpc_cfn restore0))) = True
   \<and> dns_hostnames_after False ''vpc-new-10.0.0.0/16''
        (calls_since restore0 (snd (restore_vpc ok_ec2 vpc_cfn restore0))) = False"
proof -
  have r: "restore_vpc ok_ec2 vpc_cfn restore0 =
     (Inr (Some ''vpc-new-10.0.0.0/16''), snd (restore_vpc ok_ec2 vpc_cfn restore0))"
    by (simp add: restore_vpc_def create_vpc_def vpc_cfn_def cfn_tags_def restore0_def init_def
        ok_ec2_def step_defs vpc_tag_specs_def)
  have f: "EnableDnsSupport vpc_cfn = None" "EnableDnsHostnames vpc_cfn = None"
    by (simp_all add: vpc_cfn_def)
  show ?thesis
    using r dns_attributes_restored [OF r, of False False] by (simp add: f)
qed

section \<open>Routes to other targets\<close>

lemma restore_route_other:
  "\<not> is_local_route r \<Longrightarrow> \<not> is_igw_route r \<Longrightarrow> restore_route ec2 n g r st = (Inr (), st)"
  by (simp add: restore_route_def is_local_route_def is_igw_route_def ret_def
      split: option.splits)

text \<open>
  Claim C10.  A route whose target is neither \<open>local\<close> nor an internet gateway (its
  \<open>GatewayId\<close> is absent, or holds no \<open>igw-\<close>) leaves the run as it was: no call is
  issued and nothing is logged, whatever its destination.  So the routes of a table are
  restored as if these routes had not been captured.
\<close>

theorem other_routes_dropped:
  "(\<not> is_local_route r \<and> \<not> is_igw_route r \<longrightarrow>
      restore_route ec2 new_rt_id igw_id r st = (Inr (), st))
   \<and> restore_routes ec2 new_rt_id igw_id rs st =
       restore_routes ec2 new_rt_id igw_id
         (filter (\<lambda>r. is_local_route r \<or> is_igw_route r) rs) st"
proof
  show "\<not> is_local_route r \<and> \<not> is_igw_route r \<longrightarrow>
      restore_route ec2 new_rt_id igw_id r st = (Inr (), st)"
    by (simp add: restore_route_other)
  show "restore_routes ec2 new_rt_id igw_id rs st =
       restore_routes ec2 new_rt_id igw_id
         (filter (\<lambda>r. is_local_route r \<or> is_igw_route r) rs) st"
    by (induction rs arbitrary: st)
      (auto simp: restore_route_other bind_def split: prod.splits sum.splits)
qed

theorem other_routes_dropped_witness:
  "\<not> is_local_route nat_route \<and> \<not> is_igw_route nat_route
   \<and> DestinationCidrBlock nat_route = Some ''0.0.0.0/0''
   \<and> restore_route ok_ec2 ''rtb-new'' (Some ''igw-new'') nat_route restore0
       = (Inr (), restore0)
   \<and> restore_routes ok_ec2 ''rtb-new'' (Some ''igw-new'') [nat_route] restore0
       = (Inr (), restore0)"
  using other_routes_dropped
    [of nat_route ok_ec2 "''rtb-new''" "Some ''igw-new''" restore0 "[nat_route]"]
  by (simp add: is_local_route_def is_igw_route_def nat_route_def ret_def)

section \<open>Rule sanitization\<close>

lemma clean_ip_ranges_filter: "clean_ip_ranges rs = filter (\<lambda>x. CidrIp x \<noteq> None) rs"
  by (induction rs) (simp_all add: clean_ip_ranges_def)

lemma clean_ipv6_ranges_filter: "clean_ipv6_ranges rs = filter (\<lambda>x. CidrIpv6 x \<noteq> None) rs"
  by (induction rs) (simp_all add: clean_ipv6_ranges_def)

text \<open>
  Whatever \<open>ClientError\<close> the API answers, a rule with a protocol is submitted and the
  loop goes on.
\<close>

lemma add_ingress_rule_trace:
  assumes "\<forall>h c. ec2 h c \<noteq> Raises OtherException"
  shows "\<exists>st'. add_ingress_rule ec2 g r st = (Inr (), st')
     \<and> trace st' = trace st @ (case clean_sg_rule r of None \<Rightarrow> []
          | Some c \<Rightarrow> [AuthorizeSecurityGroupIngress g c])"
proof (cases "clean_sg_rule r")
  case None
  then show ?thesis by (simp add: add_ingress_rule_def step_defs)
next
  case (Some c)
  show ?thesis
  proof (cases "ec2 (trace st) (AuthorizeSecurityGroupIngress g c)")
    case (Ok x)
    with Some show ?thesis by (simp add: add_ingress_rule_def step_defs)
  next
    case (Raises e)
    with assms obtain m where "e = ClientError m" by (cases e) auto
    with Some Raises show ?thesis by (simp add: add_ingress_rule_def step_defs)
  qed
qed

lemma add_ingress_rules_trace:
  assumes "\<forall>h c. ec2 h c \<noteq> Raises OtherException"
  shows "\<exists>st'. add_ingress_rules ec2 g rs st = (Inr (), st')
     \<and> trace st' = trace st
         @ map (AuthorizeSecurityGroupIngress g) (List.map_filter clean_sg_rule rs)"
proof (induction rs arbitrary: st)
  case Nil
  then show ?case by (simp add: ret_def map_filter_simps)
next
  case (Cons r rs)
  from add_ingress_rule_trace [OF assms, of g r st] obtain st1 where
    1: "add_ingress_rule ec2 g r st = (Inr (), st1)"
    and 2: "trace st1 = trace st @ (case clean_sg_rule r of None \<Rightarrow> []
          | Some c \<Rightarrow> [AuthorizeSecurityGroupIngress g c])" by blast
  from Cons.IH [of st1] obtain st2 where
    3: "add_ingress_rules ec2 g rs st1 = (Inr (), st2)"
    and 4: "trace st2 = trace st1
        @ map (AuthorizeSecurityGroupIngress g) (List.map_filter clean_sg_rule rs)"
    by blast
  show ?case using 1 2 3 4
    by (simp add: bind_def map_filter_simps split: option.splits)
qed

lemma add_egress_rule_trace:
  assumes "\<forall>h c. ec2 h c \<noteq> Raises OtherException"
  shows "\<exists>st'. add_egress_rule ec2 g r st = (Inr (), st')
     \<and> trace st' = trace st @ (case clean_sg_rule r of None \<Rightarrow> []
          | Some c \<Rightarrow> [AuthorizeSecurityGroupEgress g c])"
proof (cases "clean_sg_rule r")
  case None
  then show ?thesis by (simp add: add_egress_rule_def step_defs)
next
  case (Some c)
  show ?thesis
  proof (cases "ec2 (trace st) (AuthorizeSecurityGroupEgress g c)")
    case (Ok x)
    with Some show ?thesis by (simp add: add_egress_rule_def step_defs)
  next
    case (Raises e)
    with assms obtain m where "e = ClientError m" by (cases e) auto
    with Some Raises show ?thesis by (simp add: add_egress_rule_def step_defs)
  qed
qed

lemma add_egress_rules_trace:
  assumes "\<forall>h c. ec2 h c \<noteq> Raises OtherException"
  shows "\<exists>st'. add_egress_rules ec2 g rs st = (Inr (), st')
     \<and> trace st' = trace st
         @ map (AuthorizeSecurityGroupEgress g) (List.map_filter clean_sg_rule rs)"
proof (induction rs arbitrary: st)
  case Nil
  then show ?case by (simp add: ret_def map_filter_simps)
next
  case (Cons r rs)
  from add_egress_rule_trace [OF assms, of g r st] obtain st1 where
    1: "add_egress_rule ec2 g r st = (Inr (), st1)"
    and 2: "trace st1 = trace st @ (case clean_sg_rule r of None \<Rightarrow> []
          | Some c \<Rightarrow> [AuthorizeSecurityGroupEgress g c])" by blast
  from Cons.IH [of st1] obtain st2 where
    3: "add_egress_rules ec2 g rs st1 = (Inr (), st2)"
    and 4: "trace st2 = trace st1
        @ map (AuthorizeSecurityGroupEgress g) (List.map_filter clean_sg_rule rs)"
    by blast
  show ?case using 1 2 3 4
    by (simp add: bind_def map_filter_simps split: option.splits)
qed

text \<open>
  Claim C7.  A rule without protocol is dropped: it has no cleaned form and adding it
  issues no call.  A rule with a protocol keeps, of its IPv4 and IPv6 ranges, exactly
  those that have their CIDR field, each with its description.  And every rule with a
  protocol is submitted, in order, in a call of its own, ingress and egress alike,
  whatever the API answered to the rules before it.
\<close>

theorem rule_sanitization:
  "(IpProtocol r = None \<longrightarrow>
      clean_sg_rule r = None \<and> add_ingress_rule ec2 g r st = (Inr (), st)
      \<and> add_egress_rule ec2 g r st = (Inr (), st))
   \<and> (\<forall>p. IpProtocol r = Some p \<longrightarrow>
        (\<exists>c. clean_sg_rule r = Some c \<and> IpProtocol c = Some p
           \<and> IpRanges c = (case IpRanges r of None \<Rightarrow> None
                | Some xs \<Rightarrow> if xs = [] then None
                             else Some (filter (\<lambda>x. CidrIp x \<noteq> None) xs))
           \<and> Ipv6Ranges c = (case Ipv6Ranges r of None \<Rightarrow> None
                | Some xs \<Rightarrow> if xs = [] then None
                             else Some (filter (\<lambda>x. CidrIpv6 x \<noteq> None) xs))))
   \<and> ((\<forall>h c. ec2 h c \<noteq> Raises OtherException) \<longrightarrow>
        (\<exists>st'. add_ingress_rules ec2 g rs st = (Inr (), st')
           \<and> calls_since st st' =
               map (AuthorizeSecurityGroupIngress g) (List.map_filter clean_sg_rule rs))
        \<and> (\<exists>st'. add_egress_rules ec2 g rs st = (Inr (), st')
           \<and> calls_since st st' =
               map (AuthorizeSecurityGroupEgress g) (List.map_filter clean_sg_rule rs)))"
proof (intro conjI impI allI)
  assume "IpProtocol r = None"
  then show "clean_sg_rule r = None" by (simp add: clean_sg_rule_def)
  then show "add_ingress_rule ec2 g r st = (Inr (), st)"
    by (simp add: add_ingress_rule_def step_defs)
  from \<open>clean_sg_rule r = None\<close> show "add_egress_rule ec2 g r st = (Inr (), st)"
    by (simp add: add_egress_rule_def step_defs)
next
  fix p assume "IpProtocol r = Some p"
  then show "\<exists>c. clean_sg_rule r = Some c \<and> IpProtocol c = Some p
           \<and> IpRanges c = (case IpRanges r of None \<Rightarrow> None
                | Some xs \<Rightarrow> if xs = [] then None
                             else Some (filter (\<lambda>x. CidrIp x \<noteq> None) xs))
           \<and> Ipv6Ranges c = (case Ipv6Ranges r of None \<Rightarrow> None
                | Some xs \<Rightarrow> if xs = [] then None
                             else Some (filter (\<lambda>x. CidrIpv6 x \<noteq> None) xs))"
    by (simp add: clean_sg_rule_def clean_ip_ranges_filter clean_ipv6_ranges_filter
        split: option.splits)
next
  assume a: "\<forall>h c. ec2 h c \<noteq> Raises OtherException"
  from add_ingress_rules_trace [OF a, of g rs st]
  show "\<exists>st'. add_ingress_rules ec2 g rs st = (Inr (), st')
           \<and> calls_since st st' =
               map (AuthorizeSecurityGroupIngress g) (List.map_filter clean_sg_rule rs)"
    by (auto simp: calls_since_append)
  from add_egress_rules_trace [OF a, of g rs st]
  show "\<exists>st'. add_egress_rules ec2 g rs st = (Inr (), st')
           \<and> calls_since st st' =
               map (AuthorizeSecurityGroupEgress g) (List.map_filter clean_sg_rule rs)"
    by (auto simp: calls_since_append)
qed

lemma reject_rules_ec2_no_other: "reject_rules_ec2 h c \<noteq> Raises OtherException"
  by (simp add: reject_rules_ec2_def ok_ec2_def split: api_call.splits)

theorem rule_sanitization_witness:
  "IpProtocol rule_no_protocol = None
   \<and> clean_sg_rule rule_no_protocol = None
   \<and> add_ingress_rule reject_rules_ec2 ''sg-new'' rule_no_protocol restore0 = (Inr (), restore0)
   \<and> IpProtocol rule_mixed = Some ''tcp''
   \<and> Option.bind (clean_sg_rule rule_mixed) IpRanges =
       Some [\<lparr>CidrIp = Some ''10.0.0.0/8'', ip_Description = Some ''office''\<rparr>]
   \<and> (\<forall>h c. reject_rules_ec2 h c \<noteq> Raises OtherException)
   \<and> calls_since restore0
        (snd (add_ingress_rules reject_rules_ec2 ''sg-new''
                [rule_no_protocol, rule_mixed, rule_https] restore0)) =
       [AuthorizeSecurityGroupIngress ''sg-new''
          \<lparr> IpProtocol = Some ''tcp'', FromPort = Some 443, ToPort = Some 443,
            IpRanges = Some [\<lparr>CidrIp = Some ''10.0.0.0/8'',
                              ip_Description = Some ''office''\<rparr>],
            Ipv6Ranges = None \<rparr>,
        AuthorizeSecurityGroupIngress ''sg-new'' rule_https]"
proof -
  have p: "IpProtocol rule_no_protocol = None" "IpProtocol rule_mixed = Some ''tcp''"
    by (simp_all add: rule_no_protocol_def rule_mixed_def)
  have c: "clean_sg_rule rule_mixed =
       Some \<lparr> IpProtocol = Some ''tcp'', FromPort = Some 443, ToPort = Some 443,
         IpRanges = Some [\<lparr>CidrIp = Some ''10.0.0.0/8'', ip_Description = Some ''office''\<rparr>],
         Ipv6Ranges = None \<rparr>"
    by (simp add: clean_sg_rule_def rule_mixed_def clean_ip_ranges_def)
  have h: "clean_sg_rule rule_https = Some rule_https"
    by (simp add: clean_sg_rule_def rule_https_def clean_ip_ranges_def)
  have n: "\<forall>h c. reject_rules_ec2 h c \<noteq> Raises OtherException"
    by (simp add: reject_rules_ec2_no_other)
  from rule_sanitization [of rule_no_protocol reject_rules_ec2 "''sg-new''" restore0
      "[rule_no_protocol, rule_mixed, rule_https]"] p n
  have a: "clean_sg_rule rule_no_protocol = None"
    and b: "add_ingress_rule reject_rules_ec2 ''sg-new'' rule_no_protocol restore0
              = (Inr (), restore0)"
    and d: "\<exists>st'. add_ingress_rules reject_rules_ec2 ''sg-new''
                [rule_no_protocol, rule_mixed, rule_https] restore0 = (Inr (), st')
           \<and> calls_since restore0 st' =
               map (AuthorizeSecurityGroupIngress ''sg-new'')
                 (List.map_filter clean_sg_rule [rule_no_protocol, rule_mixed, rule_https])"
    by blast+
  from rule_sanitization [of rule_mixed reject_rules_ec2 "''sg-new''" restore0 "[]"] p
  obtain cm where cm: "clean_sg_rule rule_mixed = Some cm"
    and r: "IpRanges cm = (case IpRanges rule_mixed of None \<Rightarrow> None
                | Some xs \<Rightarrow> if xs = [] then None
                             else Some (filter (\<lambda>x. CidrIp x \<noteq> None) xs))"
    by blast
  from cm r have e: "Option.bind (clean_sg_rule rule_mixed) IpRanges =
       Some [\<lparr>CidrIp = Some ''10.0.0.0/8'', ip_Description = Some ''office''\<rparr>]"
    by (simp add: rule_mixed_def)
  from d have "calls_since restore0
        (snd (add_ingress_rules reject_rules_ec2 ''sg-new''
                [rule_no_protocol, rule_mixed, rule_https] restore0)) =
      map (AuthorizeSecurityGroupIngress ''sg-new'')
        (List.map_filter clean_sg_rule [rule_no_protocol, rule_mixed, rule_https])"
    by auto
  then show ?thesis
    using p a b c e n by (simp add: map_filter_simps h)
qed

section \<open>Steps only add\<close>

lemma preservesD: "preserves R m \<Longrightarrow> m st = (r, st') \<Longrightarrow> R st st'"
  by (simp add: preserves_def)

lemma grows_refl: "grows S st st"
  by (simp add: grows_def)

lemma grows_trans: "grows S a b \<Longrightarrow> grows S b c \<Longrightarrow> grows S a c"
  unfolding grows_def by (elim conjE exE, intro conjI) (auto, blast+)

lemma grows_mono: "S \<subseteq> S' \<Longrightarrow> grows S a b \<Longrightarrow> grows S' a b"
  unfolding grows_def by blast

lemma preserves_mono: "S \<subseteq> S' \<Longrightarrow> preserves (grows S) m \<Longrightarrow> preserves (grows S') m"
  unfolding preserves_def by (blast intro: grows_mono)

lemma preserves_ret: "preserves (grows S) (ret x)"
  by (simp add: preserves_def ret_def grows_refl)

lemma preserves_logger: "preserves (grows S) (logger l msg args)"
  by (auto simp: preserves_def logger_def grows_def)

lemma preserves_call:
  "\<not> creates_default_group c \<Longrightarrow> preserves (grows S) (call ec2 c)"
  by (auto simp: preserves_def call_def grows_def)

lemma preserves_bind:
  assumes "preserves (grows S) m" and "\<And>x. preserves (grows S) (f x)"
  shows "preserves (grows S) (bind m f)"
  unfolding preserves_def
proof (intro allI impI)
  fix st r st' assume b: "bind m f st = (r, st')"
  obtain r1 st1 where m: "m st = (r1, st1)" by (cases "m st")
  with assms(1) have 1: "grows S st st1" by (rule preservesD)
  show "grows S st st'"
  proof (cases r1)
    case (Inl e)
    with b m have "st' = st1" by (simp add: bind_def)
    with 1 show ?thesis by simp
  next
    case (Inr x)
    with b m have "f x st1 = (r, st')" by (simp add: bind_def)
    with assms(2) have "grows S st1 st'" by (rule preservesD)
    with 1 show ?thesis by (rule grows_trans)
  qed
qed

lemma preserves_try:
  assumes "preserves (grows S) m" and "\<And>e. preserves (grows S) (h e)"
  shows "preserves (grows S) (try_except_ClientError m h)"
  unfolding preserves_def
proof (intro allI impI)
  fix st r st' assume b: "try_except_ClientError m h st = (r, st')"
  obtain r1 st1 where m: "m st = (r1, st1)" by (cases "m st")
  with assms(1) have 1: "grows S st st1" by (rule preservesD)
  show "grows S st st'"
  proof (cases r1)
    case (Inr x)
    with b m have "st' = st1" by (simp add: try_except_ClientError_def)
    with 1 show ?thesis by simp
  next
    case (Inl e)
    show ?thesis
    proof (cases e)
      case OtherException
      with Inl b m have "st' = st1" by (simp add: try_except_ClientError_def)
      with 1 show ?thesis by simp
    next
      case (ClientError msg)
      with Inl b m have "h msg st1 = (r, st')" by (simp add: try_except_ClientError_def)
      with assms(2) have "grows S st1 st'" by (rule preservesD)
      with 1 show ?thesis by (rule grows_trans)
    qed
  qed
qed

lemma preserves_if_then:
  "preserves (grows S) m \<Longrightarrow> preserves (grows S) (if_then b m)"
  by (simp add: if_then_def preserves_ret)

lemma preserves_if:
  "(c \<Longrightarrow> preserves R a) \<Longrightarrow> (\<not> c \<Longrightarrow> preserves R b) \<Longrightarrow> preserves R (if c then a else b)"
  by simp

lemma preserves_case_option:
  "(x = None \<Longrightarrow> preserves R a) \<Longrightarrow> (\<And>y. x = Some y \<Longrightarrow> preserves R (b y))
   \<Longrightarrow> preserves R (case x of None \<Rightarrow> a | Some y \<Rightarrow> b y)"
  by (cases x) simp_all

lemma preserves_reading:
  "(\<And>s. preserves R (m s)) \<Longrightarrow> preserves R (\<lambda>st. m st st)"
  by (simp add: preserves_def)

lemmas preserves_intros =
  preserves_ret preserves_logger preserves_bind preserves_try preserves_if_then
  preserves_if preserves_case_option

lemma creates_default_group_simps [simp]:
  "\<not> creates_default_group (CreateVpc c)"
  "\<not> creates_default_group (WaitVpcAvailable v)"
  "\<not> creates_default_group (CreateTags v ts)"
  "\<not> creates_default_group (ModifyVpcAttribute v a)"
  "\<not> creates_default_group CreateInternetGateway"
  "\<not> creates_default_group (AttachInternetGateway i v)"
  "\<not> creates_default_group (CreateSubnet v c az)"
  "\<not> creates_default_group (ModifySubnetAttributeMapPublicIp s b)"
  "\<not> creates_default_group (CreateRouteTable v)"
  "\<not> creates_default_group (CreateRoute rt d g)"
  "\<not> creates_default_group (AssociateRouteTable rt s)"
  "\<not> creates_default_group (AuthorizeSecurityGroupIngress g r)"
  "\<not> creates_default_group (RevokeSecurityGroupEgress g r)"
  "\<not> creates_default_group (AuthorizeSecurityGroupEgress g r)"
  "creates_default_group (CreateSecurityGroup n d v) = (n = Some ''default'')"
  by (simp_all add: creates_default_group_def)

lemma preserves_set_vpc:
  "preserves (grows S) (\<lambda>st. (Inr (), st\<lparr>cr_vpc := x\<rparr>))"
  by (simp add: preserves_def grows_def)

lemma preserves_set_subnet:
  "preserves (grows S) (\<lambda>st. (Inr (), st\<lparr>cr_subnets := AList.update k v (cr_subnets st)\<rparr>))"
  by (auto simp: preserves_def grows_def update_conv')

lemma preserves_set_route_table:
  "preserves (grows S)
     (\<lambda>st. (Inr (), st\<lparr>cr_route_tables := AList.update k v (cr_route_tables st)\<rparr>))"
  by (auto simp: preserves_def grows_def update_conv')

lemma preserves_set_gateway:
  "preserves (grows S)
     (\<lambda>st. (Inr (), st\<lparr>cr_internet_gateways := AList.update k v (cr_internet_gateways st)\<rparr>))"
  by (auto simp: preserves_def grows_def update_conv')

lemma preserves_set_group:
  "k \<in> S \<Longrightarrow> preserves (grows S)
     (\<lambda>st. (Inr (), st\<lparr>cr_security_groups := AList.update k v (cr_security_groups st)\<rparr>))"
  by (auto simp: preserves_def grows_def update_conv')

lemma preserves_apply_tags: "preserves (grows S) (apply_tags ec2 tags new_id)"
  unfolding apply_tags_def by (intro preserves_intros preserves_call) simp

lemma preserves_restore_vpc: "preserves (grows S) (restore_vpc ec2 vd)"
  unfolding restore_vpc_def create_vpc_def missing_vpc_cidr_def Let_def
  by (intro preserves_intros preserves_call preserves_set_vpc) simp_all

lemma preserves_restore_internet_gateway:
  "preserves (grows S) (restore_internet_gateway ec2 igw v)"
  unfolding restore_internet_gateway_def
  by (intro preserves_intros preserves_call preserves_set_gateway preserves_apply_tags) simp_all

lemma preserves_restore_subnet: "preserves (grows S) (restore_subnet ec2 v sd)"
  unfolding restore_subnet_def
  by (intro preserves_intros preserves_call preserves_set_subnet preserves_apply_tags) simp_all

lemma preserves_restore_subnets: "preserves (grows S) (restore_subnets ec2 sds v)"
  by (induction sds) (auto intro!: preserves_intros preserves_restore_subnet)

lemma preserves_restore_route: "preserves (grows S) (restore_route ec2 n g r)"
  unfolding restore_route_def
  by (simp add: preserves_ret preserves_logger preserves_bind preserves_try preserves_call
      split: option.splits)

lemma preserves_restore_routes: "preserves (grows S) (restore_routes ec2 n g rs)"
  by (induction rs) (simp_all add: preserves_ret preserves_bind preserves_restore_route)

lemma preserves_restore_association: "preserves (grows S) (restore_association ec2 n a)"
  unfolding preserves_def
proof (intro allI impI)
  fix st r st' assume h: "restore_association ec2 n a st = (r, st')"
  have A: "\<And>new. preserves (grows S)
      (bind (logger INFO ''Associating route table {} with subnet {}'' [n, new]) (\<lambda>_.
         try_except_ClientError
           (bind (call ec2 (AssociateRouteTable n new)) (\<lambda>_. ret ()))
           (\<lambda>e. logger ERROR ''Error associating route table: {}'' [e])))"
    by (simp add: preserves_ret preserves_logger preserves_bind preserves_try preserves_call)
  from h show "grows S st st'"
    by (auto simp: restore_association_def ret_def grows_refl
        split: if_splits option.splits dest: preservesD [OF A])
qed

lemma preserves_restore_associations: "preserves (grows S) (restore_associations ec2 n as)"
  by (induction as) (simp_all add: preserves_ret preserves_bind preserves_restore_association)

lemma preserves_restore_route_table: "preserves (grows S) (restore_route_table ec2 v g rd)"
  unfolding restore_route_table_def
  by (simp add: preserves_ret preserves_logger preserves_bind preserves_try preserves_call
      preserves_set_route_table preserves_apply_tags preserves_restore_routes
      preserves_restore_associations split: option.splits)

lemma preserves_restore_route_tables: "preserves (grows S) (restore_route_tables ec2 rds v g)"
  by (induction rds) (simp_all add: preserves_ret preserves_bind preserves_restore_route_table)

lemmas preserves_basic =
  preserves_ret preserves_logger preserves_bind preserves_try preserves_call
  preserves_if_then preserves_apply_tags

lemma preserves_create_group:
  assumes "sg_GroupName sd \<noteq> Some ''default'' \<Longrightarrow> sg_GroupId sd \<in> S"
  shows "preserves (grows S) (create_group ec2 v sd)"
  unfolding create_group_def using assms
  by (simp add: preserves_basic preserves_set_group)

lemma preserves_create_groups:
  assumes "\<And>sd. sd \<in> set sds \<Longrightarrow> sg_GroupName sd \<noteq> Some ''default'' \<Longrightarrow> sg_GroupId sd \<in> S"
  shows "preserves (grows S) (create_groups ec2 v sds)"
  using assms
  by (induction sds) (simp_all add: preserves_basic preserves_create_group)

lemma preserves_add_ingress_rule: "preserves (grows S) (add_ingress_rule ec2 g r)"
  unfolding add_ingress_rule_def
  by (simp add: preserves_basic split: option.splits)

lemma preserves_add_ingress_rules: "preserves (grows S) (add_ingress_rules ec2 g rs)"
  by (induction rs) (simp_all add: preserves_basic preserves_add_ingress_rule)

lemma preserves_add_egress_rule: "preserves (grows S) (add_egress_rule ec2 g r)"
  unfolding add_egress_rule_def
  by (simp add: preserves_basic split: option.splits)

lemma preserves_add_egress_rules: "preserves (grows S) (add_egress_rules ec2 g rs)"
  by (induction rs) (simp_all add: preserves_basic preserves_add_egress_rule)

lemma preserves_add_group_rules: "preserves (grows S) (add_group_rules ec2 sd)"
  unfolding preserves_def
proof (intro allI impI)
  fix st r st' assume h: "add_group_rules ec2 sd st = (r, st')"
  have A: "\<And>g. preserves (grows S)
      (bind (case sg_IpPermissions sd of None \<Rightarrow> ret ()
             | Some rs \<Rightarrow> add_ingress_rules ec2 g rs) (\<lambda>_.
        (case sg_IpPermissionsEgress sd of
           None \<Rightarrow> ret ()
         | Some rs \<Rightarrow>
             bind (try_except_ClientError
                     (bind (call ec2 (RevokeSecurityGroupEgress g default_egress_rule))
                        (\<lambda>_. ret ()))
                     (\<lambda>e. ret ())) (\<lambda>_.
             add_egress_rules ec2 g rs))))"
    by (simp add: preserves_basic preserves_add_ingress_rules preserves_add_egress_rules
        split: option.splits)
  show "grows S st st'"
  proof (cases "sg_GroupName sd = Some ''default''")
    case True
    with h show ?thesis by (simp add: add_group_rules_def ret_def grows_refl)
  next
    case False
    show ?thesis
    proof (cases "map_of (cr_security_groups st) (sg_GroupId sd)")
      case None
      with False h show ?thesis by (simp add: add_group_rules_def ret_def grows_refl)
    next
      case (Some g)
      with False h show ?thesis
        by (simp add: add_group_rules_def) (rule preservesD [OF A])
    qed
  qed
qed

lemma preserves_add_groups_rules: "preserves (grows S) (add_groups_rules ec2 sds)"
  by (induction sds) (simp_all add: preserves_basic preserves_add_group_rules)

lemma preserves_restore_security_groups:
  assumes "\<And>sd. sd \<in> set sds \<Longrightarrow> sg_GroupName sd \<noteq> Some ''default'' \<Longrightarrow> sg_GroupId sd \<in> S"
  shows "preserves (grows S) (restore_security_groups ec2 sds v)"
  unfolding restore_security_groups_def using assms
  by (simp add: preserves_basic preserves_create_groups preserves_add_groups_rules)

lemma preserves_report: "preserves (grows S) (report kind kvs)"
  by (induction kvs) (auto simp: preserves_basic)

lemma preserves_report_reading: "preserves (grows S) (\<lambda>st. report kind (f st) st)"
  by (auto simp: preserves_def dest: preservesD [OF preserves_report])

lemma preserves_raise: "preserves (grows S) (\<lambda>st. (Inl e, st))"
  by (simp add: preserves_def grows_refl)

lemma preserves_restore_one: "preserves (grows UNIV) (restore_one ec2 vs vid)"
  unfolding restore_one_def
  by (simp add: preserves_basic preserves_raise preserves_report_reading preserves_restore_vpc
      preserves_restore_internet_gateway preserves_restore_subnets
      preserves_restore_route_tables preserves_restore_security_groups Let_def
      split: option.splits list.splits)

lemma preserves_restore_all: "preserves (grows UNIV) (restore_all ec2 vs vids)"
  by (induction vids) (simp_all add: preserves_basic preserves_restore_one)

section \<open>The table of created resources across networks\<close>

lemmas sample_defs = after_vpc_1_def restore0_def init_def two_vpcs_def vpc_1_def vpc_2_def
  subnet_a_def ok_ec2_def

lemmas run_defs = restore_one_def restore_vpc_def create_vpc_def restore_subnet_def
  restore_security_groups_def apply_tags_def step_defs truthy_def py_str_def Let_def

text \<open>
  Claim C1 (fails on the code).  As stated: while a network is restored, no entry
  recorded for an earlier network of the same run is readable or reported.  In the run
  over the two sample networks, the second network is restored from the state the first
  has left, in which the subnet of the first network is recorded, and the report of the
  second network lists that subnet.
\<close>

theorem mapping_not_fresh_counterexample:
  "restore_all ok_ec2 two_vpcs [''vpc-1'', ''vpc-2''] restore0
     = restore_one ok_ec2 two_vpcs ''vpc-2'' after_vpc_1
   \<and> cr_subnets after_vpc_1 = [(Some ''subnet-a'', ''subnet-new-10.0.1.0/24'')]
   \<and> logs_since after_vpc_1 (snd (restore_one ok_ec2 two_vpcs ''vpc-2'' after_vpc_1)) =
       [Log INFO ''Restoring VPC {}...'' [''vpc-2''],
        Log INFO ''Creating new VPC with CIDR {}'' [''10.1.0.0/16''],
        Log INFO ''Successfully created new VPC: {}'' [''vpc-new-10.1.0.0/16''],
        Log INFO ''Restoring subnets...'' [],
        Log INFO ''Restoring route tables...'' [],
        Log INFO ''Restoring security groups...'' [],
        Log INFO ''VPC {} has been restored to {}'' [''vpc-2'', ''vpc-new-10.1.0.0/16''],
        Log INFO ''Resource mappings (original ID -> new ID):'' [],
        Log INFO ''  VPC: {} -> {}'' [''vpc-2'', ''vpc-new-10.1.0.0/16''],
        Log INFO ''  Subnet: {} -> {}'' [''subnet-a'', ''subnet-new-10.0.1.0/24'']]"
  by (simp add: sample_defs run_defs logs_since_def)

text \<open>
  Claim C1, amended.  The table of created resources is empty when the restore object
  is constructed, once for the run, and restoring a network removes no key from it: every
  original identifier recorded before a network is restored, by an earlier network of the
  run, is still recorded after it.
\<close>

theorem created_resources_kept:
  "cr_vpc (init b ts vid r acct cur) = None
   \<and> cr_subnets (init b ts vid r acct cur) = []
   \<and> cr_route_tables (init b ts vid r acct cur) = []
   \<and> cr_security_groups (init b ts vid r acct cur) = []
   \<and> cr_internet_gateways (init b ts vid r acct cur) = []
   \<and> (restore_one ec2 vs v st = (res, st') \<longrightarrow>
        dom (map_of (cr_subnets st)) \<subseteq> dom (map_of (cr_subnets st'))
        \<and> dom (map_of (cr_route_tables st)) \<subseteq> dom (map_of (cr_route_tables st'))
        \<and> dom (map_of (cr_security_groups st)) \<subseteq> dom (map_of (cr_security_groups st'))
        \<and> dom (map_of (cr_internet_gateways st)) \<subseteq> dom (map_of (cr_internet_gateways st')))"
proof -
  have "grows UNIV st st'" if "restore_one ec2 vs v st = (res, st')"
    using preserves_restore_one that by (rule preservesD)
  then show ?thesis
    by (simp add: init_def grows_def)
qed

theorem created_resources_kept_witness:
  "restore_one ok_ec2 two_vpcs ''vpc-2'' after_vpc_1
     = (Inr (), snd (restore_one ok_ec2 two_vpcs ''vpc-2'' after_vpc_1))
   \<and> Some ''subnet-a'' \<in> dom (map_of (cr_subnets after_vpc_1))
   \<and> Some ''subnet-a''
       \<in> dom (map_of (cr_subnets (snd (restore_one ok_ec2 two_vpcs ''vpc-2'' after_vpc_1))))"
proof -
  have r: "restore_one ok_ec2 two_vpcs ''vpc-2'' after_vpc_1
     = (Inr (), snd (restore_one ok_ec2 two_vpcs ''vpc-2'' after_vpc_1))"
    by (simp add: sample_defs run_defs)
  have a: "Some ''subnet-a'' \<in> dom (map_of (cr_subnets after_vpc_1))"
    by (simp add: sample_defs run_defs)
  from created_resources_kept [of "''bkt''" None None None "''a''" None ok_ec2 two_vpcs
      "''vpc-2''" after_vpc_1 "Inr ()" "snd (restore_one ok_ec2 two_vpcs ''vpc-2'' after_vpc_1)"] r
  have "dom (map_of (cr_subnets after_vpc_1))
      \<subseteq> dom (map_of (cr_subnets (snd (restore_one ok_ec2 two_vpcs ''vpc-2'' after_vpc_1))))"
    by blast
  with a r show ?thesis by blast
qed

section \<open>The default security group\<close>

text \<open>
  Claim C9.  Whatever the API answers, no call of \<open>restore_security_groups\<close>, in the
  pass that creates the groups or in the pass that adds the rules, creates a group named
  \<open>default\<close>, and every key the security-group table gains is the identifier of a
  captured group with another name.
\<close>

theorem default_group_never_created:
  assumes "restore_security_groups ec2 sds v st = (res, st')"
  shows "(\<forall>n d w. CreateSecurityGroup n d w \<in> set (calls_since st st') \<longrightarrow> n \<noteq> Some ''default'')
    \<and> (\<forall>k. k \<in> dom (map_of (cr_security_groups st')) \<longrightarrow>
          k \<in> dom (map_of (cr_security_groups st))
          \<or> (\<exists>sd \<in> set sds. sg_GroupId sd = k \<and> sg_GroupName sd \<noteq> Some ''default''))"
proof -
  let ?S = "{k. \<exists>sd \<in> set sds. sg_GroupId sd = k \<and> sg_GroupName sd \<noteq> Some ''default''}"
  have "preserves (grows ?S) (restore_security_groups ec2 sds v)"
    by (rule preserves_restore_security_groups) blast
  from preservesD [OF this assms] have g: "grows ?S st st'" .
  then obtain cs where cs: "trace st' = trace st @ cs"
    and ok: "list_all (\<lambda>c. \<not> creates_default_group c) cs"
    by (auto simp: grows_def)
  from cs have c: "calls_since st st' = cs" by (rule calls_since_append)
  have 1: "\<forall>n d w. CreateSecurityGroup n d w \<in> set (calls_since st st') \<longrightarrow> n \<noteq> Some ''default''"
    using ok unfolding c list_all_iff by fastforce
  have 2: "\<forall>k. k \<in> dom (map_of (cr_security_groups st')) \<longrightarrow>
          k \<in> dom (map_of (cr_security_groups st))
          \<or> (\<exists>sd \<in> set sds. sg_GroupId sd = k \<and> sg_GroupName sd \<noteq> Some ''default'')"
    using g unfolding grows_def by blast
  from 1 2 show ?thesis by blast
qed

theorem default_group_never_created_witness:
  "restore_security_groups ok_ec2 [sg_default, sg_web] ''vpc-new'' restore0
     = (Inr (), snd (restore_security_groups ok_ec2 [sg_default, sg_web] ''vpc-new'' restore0))
   \<and> calls_since restore0
        (snd (restore_security_groups ok_ec2 [sg_default, sg_web] ''vpc-new'' restore0)) =
       [CreateSecurityGroup (Some ''web'') ''web tier'' ''vpc-new'',
        AuthorizeSecurityGroupIngress ''sg-new-web'' rule_https]
   \<and> cr_security_groups
        (snd (restore_security_groups ok_ec2 [sg_default, sg_web] ''vpc-new'' restore0)) =
       [(Some ''sg-w'', ''sg-new-web'')]"
proof -
  have h: "clean_sg_rule rule_https = Some rule_https"
    by (simp add: clean_sg_rule_def rule_https_def clean_ip_ranges_def)
  have r: "restore_security_groups ok_ec2 [sg_default, sg_web] ''vpc-new'' restore0
     = (Inr (), snd (restore_security_groups ok_ec2 [sg_default, sg_web] ''vpc-new'' restore0))"
    by (simp add: restore_security_groups_def create_group_def add_group_rules_def
        add_ingress_rule_def apply_tags_def step_defs sg_default_def sg_web_def restore0_def
        init_def ok_ec2_def py_str_def h)
  show ?thesis
    using r default_group_never_created [OF r]
    by (simp add: restore_security_groups_def create_group_def add_group_rules_def
        add_ingress_rule_def apply_tags_def step_defs sg_default_def sg_web_def restore0_def
        init_def ok_ec2_def py_str_def h calls_since_def)
qed

section \<open>Steps that create no route\<close>

lemma no_routes_refl: "no_routes st st"
  by (simp add: no_routes_def)






lemma no_routes_raise: "preserves no_routes (\<lambda>st. (Inl e, st))"
  by (simp add: preserves_def no_routes_refl)
























section \<open>Routes of a table\<close>

lemma apply_tags_run:
  assumes "apply_tags ec2 tags n st = (r, st')"
  shows "trace st' = trace st @ tag_calls tags n"
    and "(r = Inr ()) = all_ok ec2 (trace st) (tag_calls tags n)"
    and "st' = st\<lparr>trace := trace st', logs := logs st'\<rparr>"
  using assms
  by (auto simp: apply_tags_def tag_calls_def step_defs
      split: option.splits if_splits response.splits)







section \<open>The exit code of the restore command\<close>

lemmas command_defs = cmd_restore_def new_VpcRestore_def exc_text_def
  restore_vpc_from_backup_def load_backup_data_def find_latest_backup_def read_backup_def
  backup_prefix_def stored_snapshots_def max_keys_def second_last_def py_or_def

text \<open>
  Claim C4 (the code contradicts itself).  As stated: the exit code is 1 when any
  network of the snapshot fails to restore.  On the sample snapshot of two networks, with
  an API that refuses to create networks, the command restores nothing: both networks
  fail, each failure is logged as \<open>Failed to restore VPC\<close>, and the command then logs
  \<open>VPC restore completed successfully\<close> and exits with code 0.  The same holds when
  the one network asked for fails.  The failures that \<open>restore_vpc_from_backup\<close> finds
  before its loop (here a requested network that the backup does not hold) return
  \<open>False\<close>, and the command exits with code 1, as it does when the constructor raises.
\<close>

theorem exit_code_zero_after_failed_network:
  "fst (cmd_restore session_1 one_snapshot_s3 no_vpc_ec2 args_all) = 0
   \<and> filter (\<lambda>l. case l of Log lv m a \<Rightarrow> lv = ERROR)
        (fst (snd (cmd_restore session_1 one_snapshot_s3 no_vpc_ec2 args_all))) =
       [Log ERROR ''Error creating VPC: {}'' [''VpcLimitExceeded''],
        Log ERROR ''Failed to restore VPC {}'' [''vpc-1''],
        Log ERROR ''Error creating VPC: {}'' [''VpcLimitExceeded''],
        Log ERROR ''Failed to restore VPC {}'' [''vpc-2'']]
   \<and> last (fst (snd (cmd_restore session_1 one_snapshot_s3 no_vpc_ec2 args_all)))
       = Log INFO ''VPC restore completed successfully'' []
   \<and> map_option trace (snd (snd (cmd_restore session_1 one_snapshot_s3 no_vpc_ec2 args_all)))
       = Some [CreateVpc ''10.0.0.0/16'', CreateVpc ''10.1.0.0/16'']
   \<and> map_option cr_vpc (snd (snd (cmd_restore session_1 one_snapshot_s3 no_vpc_ec2 args_all)))
       = Some None
   \<and> fst (cmd_restore session_1 one_snapshot_s3 no_vpc_ec2 args_vpc_1) = 0
   \<and> filter (\<lambda>l. case l of Log lv m a \<Rightarrow> lv = ERROR)
        (fst (snd (cmd_restore session_1 one_snapshot_s3 no_vpc_ec2 args_vpc_1))) =
       [Log ERROR ''Error creating VPC: {}'' [''VpcLimitExceeded''],
        Log ERROR ''Failed to restore VPC {}'' [''vpc-1'']]
   \<and> last (fst (snd (cmd_restore session_1 one_snapshot_s3 no_vpc_ec2 args_vpc_1)))
       = Log INFO ''VPC restore completed successfully'' []
   \<and> fst (cmd_restore session_1 one_snapshot_s3 no_vpc_ec2 args_vpc_9) = 1
   \<and> filter (\<lambda>l. case l of Log lv m a \<Rightarrow> lv = ERROR)
        (fst (snd (cmd_restore session_1 one_snapshot_s3 no_vpc_ec2 args_vpc_9))) =
       [Log ERROR ''VPC {} not found in backup data'' [''vpc-9''],
        Log ERROR ''VPC restore failed'' []]
   \<and> cmd_restore (SessionRaises OtherException) one_snapshot_s3 no_vpc_ec2 args_all
       = (1, [Log ERROR ''Unexpected error during restore: {}'' [''exception'']], None)"
  by (simp add: command_defs one_snapshot_s3_def no_vpc_ec2_def session_1_def args_all_def
      args_vpc_1_def args_vpc_9_def sample_defs run_defs)

section \<open>The order of the listed prefixes\<close>





lemma append_le_left: "(p @ a \<le> p @ b) = (a \<le> (b::string))"
  by (induction p) simp_all

lemma append_le_right: "length a = length b \<Longrightarrow> (a @ s \<le> b @ s) = (a \<le> (b::string))"
  by (induction a b rule: list_induct2) auto

lemma sorted_le_last:
  fixes xs :: "string list"
  assumes "sorted xs" and "y \<in> set xs"
  shows "y \<le> last xs"
proof -
  from assms(2) have ne: "xs \<noteq> []" by auto
  then have "xs = butlast xs @ [last xs]" by simp
  with assms(1) have s: "sorted (butlast xs @ [last xs])" by simp
  from assms(2) ne have "y \<in> set (butlast xs) \<or> y = last xs"
    by (metis Un_iff append_butlast_last_id insert_iff list.set(1) list.simps(15) set_append
        empty_iff)
  with s show ?thesis by (auto simp: sorted_append)
qed

lemma sorted_last_Max:
  fixes xs :: "string list"
  assumes "sorted xs" and "xs \<noteq> []"
  shows "Max (set xs) = last xs"
proof (rule Max_eqI)
  show "finite (set xs)" by simp
  show "last xs \<in> set xs" using assms(2) by (rule last_in_set)
  fix y assume "y \<in> set xs"
  with assms(1) show "y \<le> last xs" by (rule sorted_le_last)
qed

lemma prefixes_sorted:
  assumes "\<forall>ts \<in> set xs. length ts = n" and "sorted xs"
  shows "sorted (map (\<lambda>ts. P @ ts @ ''/'') xs)"
proof -
  have "sorted_wrt (\<lambda>x y. P @ x @ ''/'' \<le> P @ y @ ''/'') xs"
  proof (rule sorted_wrt_mono_rel [OF _ assms(2)])
    fix x y assume "x \<in> set xs" "y \<in> set xs" and le: "x \<le> y"
    with assms(1) have "length x = length y" by simp
    with le have "x @ ''/'' \<le> y @ ''/''" by (simp only: append_le_right)
    then show "P @ x @ ''/'' \<le> P @ y @ ''/''" by (simp only: append_le_left)
  qed
  then show ?thesis by (simp add: sorted_map)
qed

lemma sort_prefixes:
  assumes "\<forall>ts \<in> set tss. length ts = n"
  shows "sort (remdups (map (\<lambda>ts. P @ ts @ ''/'') tss))
     = map (\<lambda>ts. P @ ts @ ''/'') (sort (remdups tss))"
proof (rule sorted_distinct_set_unique)
  show "sorted (sort (remdups (map (\<lambda>ts. P @ ts @ ''/'') tss)))" by simp
  show "distinct (sort (remdups (map (\<lambda>ts. P @ ts @ ''/'') tss)))" by simp
  from assms have "\<forall>ts \<in> set (sort (remdups tss)). length ts = n" by simp
  then show "sorted (map (\<lambda>ts. P @ ts @ ''/'') (sort (remdups tss)))"
    by (rule prefixes_sorted) simp
  show "distinct (map (\<lambda>ts. P @ ts @ ''/'') (sort (remdups tss)))"
    by (simp add: distinct_map inj_on_def)
  show "set (sort (remdups (map (\<lambda>ts. P @ ts @ ''/'') tss)))
      = set (map (\<lambda>ts. P @ ts @ ''/'') (sort (remdups tss)))"
    by simp
qed

text \<open>
  The prefix \<open>find_latest_backup\<close> takes from the first page of a listing: that of the
  greatest timestamp of the page.
\<close>

lemma latest_prefix:
  assumes "tss \<noteq> []" and "\<forall>ts \<in> set tss. length ts = n" and "0 < k"
  shows "last (sort (take k (sort (remdups (map (\<lambda>ts. P @ ts @ ''/'') tss)))))
     = P @ Max (set (take k (sort (remdups tss)))) @ ''/''"
proof -
  let ?f = "\<lambda>ts. P @ ts @ ''/''"
  let ?page = "take k (sort (remdups tss))"
  from assms(1) have "sort (remdups tss) \<noteq> []"
    by (metis set_empty set_remdups set_sort)
  with assms(3) have ne: "?page \<noteq> []" by (cases "sort (remdups tss)") simp_all
  have s: "sorted ?page" by (simp add: sorted_wrt_take)
  from assms(2) have "\<forall>ts \<in> set ?page. length ts = n"
    by (auto dest: in_set_takeD)
  then have sp: "sorted (map ?f ?page)" using s by (rule prefixes_sorted)
  have "take k (sort (remdups (map ?f tss))) = map ?f ?page"
    by (simp add: sort_prefixes [OF assms(2)] take_map)
  then have "last (sort (take k (sort (remdups (map ?f tss))))) = last (map ?f ?page)"
    using sp by (simp add: sorted_sort_id)
  also have "\<dots> = ?f (last ?page)" using ne by (simp add: last_map)
  also have "last ?page = Max (set ?page)" using s ne by (simp add: sorted_last_Max)
  finally show ?thesis .
qed





text \<open>
  Where the backup stores a snapshot and where the restore looks for it.  With the
  default prefix and a region given to both commands, the key of the backup is the one
  the restore reads.  With no region given, the backup stores under \<open>default\<close> and the
  restore looks under the region of its session.
\<close>

lemma save_key_read_by_restore:
  assumes "region st = Some r" and "r \<noteq> []"
  shows "save_key None (account_id st) (Some r) ts ''json''
     = backup_prefix st @ ts @ ''/'' @ ''vpc_config.json''"
  using assms by (simp add: save_key_def backup_prefix_def py_or_def py_str_def truthy_def)

lemma save_key_without_region:
  "save_key None ''111122223333'' None ''2024-01-01-00-00-00'' ''json''
     = ''vpc-backups/111122223333/default/2024-01-01-00-00-00/vpc_config.json''
   \<and> backup_prefix (init ''bkt'' None None None ''111122223333'' (Some ''eu-west-1''))
     = ''vpc-backups/111122223333/eu-west-1/''"
  by (simp add: save_key_def backup_prefix_def init_def py_or_def py_str_def truthy_def)

section \<open>The timestamps of the crowded store\<close>


















section \<open>The latest backup\<close>





section \<open>What the tables record\<close>

lemma all_ok_append:
  "all_ok ec2 h (a @ b) = (all_ok ec2 h a \<and> all_ok ec2 (h @ a) b)"
  by (induction a arbitrary: h) (simp_all split: response.splits)

text \<open>Steps that change nothing of the object but its trace and its logs.\<close>

lemma frame_trans:
  "b = a\<lparr>trace := t1, logs := l1\<rparr> \<Longrightarrow> c = b\<lparr>trace := t2, logs := l2\<rparr>
   \<Longrightarrow> c = a\<lparr>trace := t2, logs := l2\<rparr>"
  by simp

lemma frame_tables:
  assumes "st' = st\<lparr>trace := t, logs := l\<rparr>"
  shows "cr_vpc st' = cr_vpc st" and "cr_subnets st' = cr_subnets st"
    and "cr_route_tables st' = cr_route_tables st"
    and "cr_security_groups st' = cr_security_groups st"
    and "cr_internet_gateways st' = cr_internet_gateways st"
  using assms by simp_all

lemma restore_route_frame:
  "restore_route ec2 n g r st = (res, st')
   \<Longrightarrow> st' = st\<lparr>trace := trace st', logs := logs st'\<rparr> \<and> res \<noteq> Inl (ClientError e)"
  by (auto simp: restore_route_def step_defs
      split: option.splits if_splits response.splits exc.splits)

lemma restore_routes_frame:
  "restore_routes ec2 n g rs st = (res, st')
   \<Longrightarrow> st' = st\<lparr>trace := trace st', logs := logs st'\<rparr> \<and> res \<noteq> Inl (ClientError e)"
proof (induction rs arbitrary: st)
  case Nil
  then show ?case by (auto simp: ret_def)
next
  case (Cons r rs)
  obtain r1 st1 where a: "restore_route ec2 n g r st = (r1, st1)"
    by (cases "restore_route ec2 n g r st")
  from restore_route_frame [OF a]
  have s1: "st1 = st\<lparr>trace := trace st1, logs := logs st1\<rparr>"
    and c1: "r1 \<noteq> Inl (ClientError e)" by blast+
  show ?case
  proof (cases r1)
    case (Inl x)
    with Cons.prems a have "st' = st1" "res = r1" by (simp_all add: bind_def)
    with s1 c1 show ?thesis by simp
  next
    case (Inr u)
    with Cons.prems a have "restore_routes ec2 n g rs st1 = (res, st')" by (simp add: bind_def)
    from Cons.IH [OF this] have "st' = st1\<lparr>trace := trace st', logs := logs st'\<rparr>"
      and c: "res \<noteq> Inl (ClientError e)" by blast+
    from s1 this(1) have "st' = st\<lparr>trace := trace st', logs := logs st'\<rparr>"
      by (rule frame_trans)
    with c show ?thesis by blast
  qed
qed

lemma restore_association_frame:
  "restore_association ec2 n a st = (res, st')
   \<Longrightarrow> st' = st\<lparr>trace := trace st', logs := logs st'\<rparr> \<and> res \<noteq> Inl (ClientError e)"
  by (auto simp: restore_association_def step_defs
      split: option.splits if_splits response.splits exc.splits)

lemma restore_associations_frame:
  "restore_associations ec2 n as st = (res, st')
   \<Longrightarrow> st' = st\<lparr>trace := trace st', logs := logs st'\<rparr> \<and> res \<noteq> Inl (ClientError e)"
proof (induction as arbitrary: st)
  case Nil
  then show ?case by (auto simp: ret_def)
next
  case (Cons a as)
  obtain r1 st1 where a: "restore_association ec2 n a st = (r1, st1)"
    by (cases "restore_association ec2 n a st")
  from restore_association_frame [OF a]
  have s1: "st1 = st\<lparr>trace := trace st1, logs := logs st1\<rparr>"
    and c1: "r1 \<noteq> Inl (ClientError e)" by blast+
  show ?case
  proof (cases r1)
    case (Inl x)
    with Cons.prems a have "st' = st1" "res = r1" by (simp_all add: bind_def)
    with s1 c1 show ?thesis by simp
  next
    case (Inr u)
    with Cons.prems a have "restore_associations ec2 n as st1 = (res, st')"
      by (simp add: bind_def)
    from Cons.IH [OF this] have "st' = st1\<lparr>trace := trace st', logs := logs st'\<rparr>"
      and c: "res \<noteq> Inl (ClientError e)" by blast+
    from s1 this(1) have "st' = st\<lparr>trace := trace st', logs := logs st'\<rparr>"
      by (rule frame_trans)
    with c show ?thesis by blast
  qed
qed

text \<open>The table of subnets after the loop body for one subnet.\<close>

lemma restore_subnet_records:
  assumes "sn_CidrBlock sd = Some cidr" and "cidr \<noteq> []"
  shows "cr_subnets (snd (restore_subnet ec2 v sd st)) =
     (case created ec2 (trace st)
             (CreateSubnet v cidr
                (if truthy (sn_AvailabilityZone sd) then sn_AvailabilityZone sd else None))
             (subnet_follow sd) of
        Some n \<Rightarrow> AList.update (sn_SubnetId sd) n (cr_subnets st)
      | None \<Rightarrow> cr_subnets st)"
proof -
  let ?c = "CreateSubnet v cidr
    (if truthy (sn_AvailabilityZone sd) then sn_AvailabilityZone sd else None)"
  show ?thesis
  proof (cases "ec2 (trace st) ?c")
    case (Raises e)
    with assms show ?thesis
      by (cases e) (simp_all add: restore_subnet_def step_defs created_def)
  next
    case (Ok n)
    define st1 where "st1 = st\<lparr>logs := logs st @ [Log INFO
      ''Creating new subnet with CIDR {} in AZ {}'' [cidr, py_str (sn_AvailabilityZone sd)]],
      trace := trace st @ [?c]\<rparr>"
    obtain r2 st2 where t: "apply_tags ec2 (sn_Tags sd) n st1 = (r2, st2)"
      by (cases "apply_tags ec2 (sn_Tags sd) n st1")
    note run = apply_tags_run [OF t]
    have t2: "trace st2 = trace st @ [?c] @ tag_calls (sn_Tags sd) n"
      using run(1) by (simp add: st1_def)
    have ok2: "(r2 = Inr ()) = all_ok ec2 (trace st @ [?c]) (tag_calls (sn_Tags sd) n)"
      using run(2) by (simp add: st1_def)
    from run(3) have "cr_subnets st2 = cr_subnets st1" by (rule frame_tables)
    then have f2: "cr_subnets st2 = cr_subnets st" by (simp add: st1_def)
    show ?thesis
    proof (cases r2)
      case (Inl e)
      with ok2 have "\<not> all_ok ec2 (trace st @ [?c]) (subnet_follow sd n)"
        by (simp add: subnet_follow_def all_ok_append)
      with Ok have "created ec2 (trace st) ?c (subnet_follow sd) = None"
        by (simp add: created_def)
      moreover from assms Ok t Inl f2
      have "cr_subnets (snd (restore_subnet ec2 v sd st)) = cr_subnets st"
        by (cases e) (simp_all add: restore_subnet_def step_defs st1_def)
      ultimately show ?thesis by simp
    next
      case (Inr u)
      with ok2 have tags: "all_ok ec2 (trace st @ [?c]) (tag_calls (sn_Tags sd) n)" by simp
      show ?thesis
      proof (cases "sn_MapPublicIpOnLaunch sd = Some True")
        case False
        with tags Ok have "created ec2 (trace st) ?c (subnet_follow sd) = Some n"
          by (simp add: created_def subnet_follow_def)
        moreover from assms Ok t Inr f2 False
        have "cr_subnets (snd (restore_subnet ec2 v sd st))
            = AList.update (sn_SubnetId sd) n (cr_subnets st)"
          by (simp add: restore_subnet_def step_defs st1_def)
        ultimately show ?thesis by simp
      next
        case True
        show ?thesis
        proof (cases "ec2 (trace st2) (ModifySubnetAttributeMapPublicIp n True)")
          case (Raises e)
          with tags True t2
          have "\<not> all_ok ec2 (trace st @ [?c]) (subnet_follow sd n)"
            by (simp add: subnet_follow_def all_ok_append)
          with Ok have "created ec2 (trace st) ?c (subnet_follow sd) = None"
            by (simp add: created_def)
          moreover from assms Ok t Inr f2 True Raises
          have "cr_subnets (snd (restore_subnet ec2 v sd st)) = cr_subnets st"
            by (cases e) (simp_all add: restore_subnet_def step_defs st1_def)
          ultimately show ?thesis by simp
        next
          case m: (Ok x)
          with tags True t2
          have "all_ok ec2 (trace st @ [?c]) (subnet_follow sd n)"
            by (simp add: subnet_follow_def all_ok_append)
          with Ok have "created ec2 (trace st) ?c (subnet_follow sd) = Some n"
            by (simp add: created_def)
          moreover from assms Ok t Inr f2 True m
          have "cr_subnets (snd (restore_subnet ec2 v sd st))
              = AList.update (sn_SubnetId sd) n (cr_subnets st)"
            by (simp add: restore_subnet_def step_defs st1_def)
          ultimately show ?thesis by simp
        qed
      qed
    qed
  qed
qed

lemma restore_subnet_no_cidr:
  "sn_CidrBlock sd = None \<or> sn_CidrBlock sd = Some []
   \<Longrightarrow> cr_subnets (snd (restore_subnet ec2 v sd st)) = cr_subnets st"
  by (auto simp: restore_subnet_def logger_def)

text \<open>The table of security groups after the first loop body for one group.\<close>

lemma create_group_records:
  assumes "sg_GroupName gd \<noteq> Some ''default''"
  shows "cr_security_groups (snd (create_group ec2 v gd st)) =
     (case created ec2 (trace st)
             (CreateSecurityGroup (sg_GroupName gd)
                (case sg_Description gd of None \<Rightarrow> ''Restored security group''
                 | Some d \<Rightarrow> d) v)
             (tag_calls (sg_Tags gd)) of
        Some n \<Rightarrow> AList.update (sg_GroupId gd) n (cr_security_groups st)
      | None \<Rightarrow> cr_security_groups st)"
proof -
  let ?c = "CreateSecurityGroup (sg_GroupName gd)
    (case sg_Description gd of None \<Rightarrow> ''Restored security group'' | Some d \<Rightarrow> d) v"
  show ?thesis
  proof (cases "ec2 (trace st) ?c")
    case (Raises e)
    with assms show ?thesis
      by (cases e) (simp_all add: create_group_def step_defs created_def)
  next
    case (Ok n)
    define st1 where "st1 = st\<lparr>logs := logs st @ [Log INFO ''Creating security group {}''
        [py_str (sg_GroupName gd)]], trace := trace st @ [?c]\<rparr>"
    obtain r2 st2 where t: "apply_tags ec2 (sg_Tags gd) n st1 = (r2, st2)"
      by (cases "apply_tags ec2 (sg_Tags gd) n st1")
    note run = apply_tags_run [OF t]
    have ok2: "(r2 = Inr ()) = all_ok ec2 (trace st @ [?c]) (tag_calls (sg_Tags gd) n)"
      using run(2) by (simp add: st1_def)
    from run(3) have "cr_security_groups st2 = cr_security_groups st1" by (rule frame_tables)
    then have f2: "cr_security_groups st2 = cr_security_groups st" by (simp add: st1_def)
    show ?thesis
    proof (cases r2)
      case (Inl e)
      with ok2 Ok have "created ec2 (trace st) ?c (tag_calls (sg_Tags gd)) = None"
        by (simp add: created_def)
      moreover from assms Ok t Inl f2
      have "cr_security_groups (snd (create_group ec2 v gd st)) = cr_security_groups st"
        by (cases e) (simp_all add: create_group_def step_defs st1_def)
      ultimately show ?thesis by simp
    next
      case (Inr u)
      with ok2 Ok have "created ec2 (trace st) ?c (tag_calls (sg_Tags gd)) = Some n"
        by (simp add: created_def)
      moreover from assms Ok t Inr f2
      have "cr_security_groups (snd (create_group ec2 v gd st))
          = AList.update (sg_GroupId gd) n (cr_security_groups st)"
        by (simp add: create_group_def step_defs st1_def)
      ultimately show ?thesis by simp
    qed
  qed
qed

lemma create_group_default:
  "sg_GroupName gd = Some ''default''
   \<Longrightarrow> cr_security_groups (snd (create_group ec2 v gd st)) = cr_security_groups st"
  by (simp add: create_group_def ret_def)

end
